theory Spec2Isabelle
  imports Main "HOL-Library.Word"
begin

unbundle bit_operations_syntax

section \<open>Bytes and the host byte order\<close>

text \<open>
  The listener writes its structs to the dump stream as raw memory
  (\<^verbatim>\<open>Dumpstream->write(reinterpret_cast<const char *>(&rec), sizeof(rec))\<close>).
  The embedding fixes the layout of the platform the jitdump format is consumed on:
  little-endian, LP64, where none of the structs below has padding
  (\<^verbatim>\<open>sizeof\<close>: header 40, record prefix 16, code load 56, debug info 32, debug entry 16).
\<close>

type_synonym bytes = "8 word list"

definition le16 :: "16 word \<Rightarrow> bytes" where
  "le16 w = [ucast w, ucast (drop_bit 8 w)]"

definition le32 :: "32 word \<Rightarrow> bytes" where
  "le32 w = [ucast w, ucast (drop_bit 8 w), ucast (drop_bit 16 w), ucast (drop_bit 24 w)]"

definition le64 :: "64 word \<Rightarrow> bytes" where
  "le64 w = [ucast w, ucast (drop_bit 8 w), ucast (drop_bit 16 w), ucast (drop_bit 24 w),
             ucast (drop_bit 32 w), ucast (drop_bit 40 w), ucast (drop_bit 48 w),
             ucast (drop_bit 56 w)]"

text \<open>Reading a little-endian integer back from the front of a byte sequence.\<close>

fun rd_le :: "bytes \<Rightarrow> 'a::len word" where
  "rd_le [] = 0"
| "rd_le (b # bs) = ucast b OR push_bit 8 (rd_le bs)"

definition rd16 :: "bytes \<Rightarrow> 16 word" where
  "rd16 bs = rd_le (take 2 bs)"

definition rd32 :: "bytes \<Rightarrow> 32 word" where
  "rd32 bs = rd_le (take 4 bs)"

definition rd64 :: "bytes \<Rightarrow> 64 word" where
  "rd64 bs = rd_le (take 8 bs)"

section \<open>The structs of the perf jit specification\<close>

datatype LLVMPerfJitRecordType =
  JIT_CODE_LOAD | JIT_CODE_MOVE | JIT_CODE_DEBUG_INFO | JIT_CODE_CLOSE | JIT_CODE_UNWINDING_INFO

fun record_type_id :: "LLVMPerfJitRecordType \<Rightarrow> 32 word" where
  "record_type_id JIT_CODE_LOAD = 0"
| "record_type_id JIT_CODE_MOVE = 1"
| "record_type_id JIT_CODE_DEBUG_INFO = 2"
| "record_type_id JIT_CODE_CLOSE = 3"
| "record_type_id JIT_CODE_UNWINDING_INFO = 4"

definition LLVM_PERF_JIT_MAGIC :: "32 word" where
  "LLVM_PERF_JIT_MAGIC = push_bit 24 0x4A OR push_bit 16 0x69 OR push_bit 8 0x54 OR 0x44"

definition LLVM_PERF_JIT_VERSION :: "32 word" where
  "LLVM_PERF_JIT_VERSION = 1"

definition JIT_LANG :: string where
  "JIT_LANG = ''llvm-IR''"

record LLVMPerfJitHeader =
  Hdr_Magic :: "32 word"
  Hdr_Version :: "32 word"
  Hdr_TotalSize :: "32 word"
  Hdr_ElfMach :: "32 word"
  Hdr_Pad1 :: "32 word"
  Hdr_Pid :: "32 word"
  Hdr_Timestamp :: "64 word"
  Hdr_Flags :: "64 word"

record LLVMPerfJitRecordPrefix =
  Id :: "32 word"
  TotalSize :: "32 word"
  Timestamp :: "64 word"

record LLVMPerfJitRecordCodeLoad =
  CL_Prefix :: LLVMPerfJitRecordPrefix
  CL_Pid :: "32 word"
  CL_Tid :: "32 word"
  CL_Vma :: "64 word"
  CL_CodeAddr :: "64 word"
  CL_CodeSize :: "64 word"
  CL_CodeIndex :: "64 word"

record LLVMPerfJitDebugEntry =
  DE_Addr :: "64 word"
  DE_Lineno :: "32 word"
  DE_Discrim :: "32 word"

record LLVMPerfJitRecordDebugInfo =
  DI_Prefix :: LLVMPerfJitRecordPrefix
  DI_CodeAddr :: "64 word"
  DI_NrEntry :: "64 word"

text \<open>The \<^verbatim>\<open>sizeof\<close> of each struct, and its bytes in memory, field by field.\<close>

definition sizeof_Header :: nat where "sizeof_Header = 40"
definition sizeof_RecordPrefix :: nat where "sizeof_RecordPrefix = 16"
definition sizeof_RecordCodeLoad :: nat where "sizeof_RecordCodeLoad = 56"
definition sizeof_DebugEntry :: nat where "sizeof_DebugEntry = 16"
definition sizeof_RecordDebugInfo :: nat where "sizeof_RecordDebugInfo = 32"

definition bytes_Header :: "LLVMPerfJitHeader \<Rightarrow> bytes" where
  "bytes_Header h =
     le32 (Hdr_Magic h) @ le32 (Hdr_Version h) @ le32 (Hdr_TotalSize h) @ le32 (Hdr_ElfMach h) @
     le32 (Hdr_Pad1 h) @ le32 (Hdr_Pid h) @ le64 (Hdr_Timestamp h) @ le64 (Hdr_Flags h)"

definition bytes_RecordPrefix :: "LLVMPerfJitRecordPrefix \<Rightarrow> bytes" where
  "bytes_RecordPrefix p = le32 (Id p) @ le32 (TotalSize p) @ le64 (Timestamp p)"

definition bytes_RecordCodeLoad :: "LLVMPerfJitRecordCodeLoad \<Rightarrow> bytes" where
  "bytes_RecordCodeLoad r =
     bytes_RecordPrefix (CL_Prefix r) @ le32 (CL_Pid r) @ le32 (CL_Tid r) @ le64 (CL_Vma r) @
     le64 (CL_CodeAddr r) @ le64 (CL_CodeSize r) @ le64 (CL_CodeIndex r)"

definition bytes_DebugEntry :: "LLVMPerfJitDebugEntry \<Rightarrow> bytes" where
  "bytes_DebugEntry e = le64 (DE_Addr e) @ le32 (DE_Lineno e) @ le32 (DE_Discrim e)"

definition bytes_RecordDebugInfo :: "LLVMPerfJitRecordDebugInfo \<Rightarrow> bytes" where
  "bytes_RecordDebugInfo r =
     bytes_RecordPrefix (DI_Prefix r) @ le64 (DI_CodeAddr r) @ le64 (DI_NrEntry r)"

section \<open>What the listener gets from outside\<close>

text \<open>
  The operating system and the LLVM support library, as far as the listener calls them.
  \<^item> \<open>env_clock n\<close> is the result of the \<open>n\<close>-th call of
    \<^verbatim>\<open>clock_gettime(CLOCK_MONOTONIC, &ts)\<close>: \<open>None\<close> when it returns nonzero, else
    \<open>(tv_sec, tv_nsec)\<close>.
  \<^item> \<open>env_createUniqueDirectory\<close> maps the model path to the created directory
    (\<open>None\<close> on failure); LLVM appends a dash and six random characters.
  \<^item> \<open>env_openFileForWrite\<close> maps a file name to the descriptor (\<open>None\<close> on failure).
  \<^item> \<open>env_self_exe\<close> is the content of \<^verbatim>\<open>/proc/self/exe\<close> (\<open>None\<close> when it cannot
    be opened).
  \<^item> \<open>env_has_error\<close> is what \<^verbatim>\<open>Dumpstream->has_error()\<close> answers after the header
    was handed to the stream.
  \<^item> \<open>env_memory\<close> is the process's memory, read when the code bytes are copied.
\<close>

record Env =
  env_getpid :: "32 word"
  env_get_threadid :: "32 word"
  env_clock :: "nat \<Rightarrow> (64 word \<times> 64 word) option"
  env_JITDUMPDIR :: "string option"
  env_home_directory :: "string option"
  env_create_directories :: "string \<Rightarrow> bool"
  env_strftime :: string
  env_createUniqueDirectory :: "string \<Rightarrow> string option"
  env_openFileForWrite :: "string \<Rightarrow> int option"
  env_self_exe :: "bytes option"
  env_mmap :: bool
  env_has_error :: bool
  env_memory :: "64 word \<Rightarrow> 8 word"

text \<open>The calls the constructor makes, in the order it makes them.\<close>

datatype call =
  Call_clock_gettime
  | Call_create_directories string
  | Call_createUniqueDirectory string
  | Call_openFileForWrite string
  | Call_openFileForRead string
  | Call_mmap int
  | Call_write_Header

datatype marker = NULL | MAP_FAILED | Mapped

text \<open>
  The members of the class. \<open>Dumpstream\<close> is \<open>None\<close> while the pointer is null and
  otherwise holds every byte handed to the stream so far, in order; whether the stream
  gets them to the file is outside the listener, which asks for the stream's error state
  only once, after the header. \<open>ClockReads\<close> is not a member: it counts the calls of
  \<^verbatim>\<open>clock_gettime\<close>, so that the next reading can be looked up in the environment.
\<close>

record PerfJITEventListener =
  Pid :: "32 word"
  JitPath :: string
  DumpFd :: int
  Dumpstream :: "bytes option"
  MarkerAddr :: marker
  SuccessfullyInitialized :: bool
  CodeGeneration :: "64 word"
  ClockReads :: nat

section \<open>Timestamps\<close>

definition timespec_to_ns :: "64 word \<times> 64 word \<Rightarrow> 64 word" where
  "timespec_to_ns ts = (fst ts * 1000000000) + snd ts"

definition perf_get_timestamp :: "Env \<Rightarrow> PerfJITEventListener \<Rightarrow> 64 word \<times> PerfJITEventListener" where
  "perf_get_timestamp env s =
     (let s' = s\<lparr>ClockReads := Suc (ClockReads s)\<rparr>
      in case env_clock env (ClockReads s) of
           None \<Rightarrow> (0, s')
         | Some ts \<Rightarrow> (timespec_to_ns ts, s'))"

section \<open>Writing to the dump stream\<close>

definition stream_write :: "bytes \<Rightarrow> PerfJITEventListener \<Rightarrow> PerfJITEventListener" where
  "stream_write bs s = s\<lparr>Dumpstream := map_option (\<lambda>d. d @ bs) (Dumpstream s)\<rparr>"

text \<open>\<^verbatim>\<open>raw_ostream << int\<close>: the decimal digits, with a minus sign when negative.\<close>

fun show_nat :: "nat \<Rightarrow> string" where
  "show_nat n = (if n < 10 then [''0123456789'' ! n]
                 else show_nat (n div 10) @ [''0123456789'' ! (n mod 10)])"

declare show_nat.simps [simp del]

definition show_int :: "int \<Rightarrow> string" where
  "show_int i = (if i < 0 then ''-'' @ show_nat (nat (- i)) else show_nat (nat i))"

section \<open>Initialisation\<close>

definition InitDebuggingDir ::
  "Env \<Rightarrow> PerfJITEventListener \<Rightarrow> call list \<times> bool \<times> PerfJITEventListener" where
  "InitDebuggingDir env s =
     (let BasePath = (case env_JITDUMPDIR env of
                        Some BaseDir \<Rightarrow> BaseDir
                      | None \<Rightarrow> (case env_home_directory env of Some h \<Rightarrow> h | None \<Rightarrow> ''.''));
          Path = BasePath @ ''/.debug/jit/''
      in if \<not> env_create_directories env Path
         then ([Call_create_directories Path], False, s)
         else
           let Path' = Path @ JIT_LANG @ ''-jit-'' @ env_strftime env
           in case env_createUniqueDirectory env Path' of
                None \<Rightarrow>
                  ([Call_create_directories Path, Call_createUniqueDirectory Path'], False, s)
              | Some UniqueDebugDir \<Rightarrow>
                  ([Call_create_directories Path, Call_createUniqueDirectory Path'], True,
                   s\<lparr>JitPath := UniqueDebugDir\<rparr>))"

definition OpenMarker :: "Env \<Rightarrow> PerfJITEventListener \<Rightarrow> bool \<times> PerfJITEventListener" where
  "OpenMarker env s =
     (if env_mmap env then (True, s\<lparr>MarkerAddr := Mapped\<rparr>)
      else (False, s\<lparr>MarkerAddr := MAP_FAILED\<rparr>))"

definition FillMachine :: "Env \<Rightarrow> LLVMPerfJitHeader \<Rightarrow> bool \<times> LLVMPerfJitHeader" where
  "FillMachine env hdr =
     (case env_self_exe env of
        None \<Rightarrow> (False, hdr)
      | Some exe \<Rightarrow>
          let id = take 16 exe in
          if length id \<noteq> 16 then (False, hdr)
          else if id ! 0 \<noteq> 0x7f \<or> id ! 1 \<noteq> 0x45 \<or> id ! 2 \<noteq> 0x4C \<or> id ! 3 \<noteq> 0x46
          then (False, hdr)
          else
            let info = take 4 (drop 16 exe) in
            if length info \<noteq> 4 then (False, hdr)
            else (True, hdr\<lparr>Hdr_ElfMach := ucast (rd16 (drop 2 info))\<rparr>))"

definition dump_Filename :: "PerfJITEventListener \<Rightarrow> string" where
  "dump_Filename s = JitPath s @ ''jit-'' @ show_int (sint (Pid s)) @ ''.dump''"

definition PerfJITEventListener_ctor :: "Env \<Rightarrow> call list \<times> PerfJITEventListener" where
  "PerfJITEventListener_ctor env =
     (let s0 = \<lparr>Pid = env_getpid env, JitPath = [], DumpFd = - 1, Dumpstream = None,
                MarkerAddr = NULL, SuccessfullyInitialized = False, CodeGeneration = 1,
                ClockReads = 0\<rparr>;
          (t0, s1) = perf_get_timestamp env s0;
          c1 = [Call_clock_gettime]
      in if t0 = 0 then (c1, s1)
         else
           let (cd, ok, s2) = InitDebuggingDir env s1;
               c2 = c1 @ cd
           in if \<not> ok then (c2, s2)
              else
                let Filename = dump_Filename s2;
                    c3 = c2 @ [Call_openFileForWrite Filename]
                in case env_openFileForWrite env Filename of
                     None \<Rightarrow> (c3, s2)
                   | Some fd \<Rightarrow>
                       let s3 = s2\<lparr>DumpFd := fd, Dumpstream := Some []\<rparr>;
                           Header0 = \<lparr>Hdr_Magic = 0, Hdr_Version = 0, Hdr_TotalSize = 0,
                                      Hdr_ElfMach = 0, Hdr_Pad1 = 0, Hdr_Pid = 0,
                                      Hdr_Timestamp = 0, Hdr_Flags = 0\<rparr>;
                           (okm, Header1) = FillMachine env Header0;
                           c4 = c3 @ [Call_openFileForRead ''/proc/self/exe'']
                       in if \<not> okm then (c4, s3)
                          else
                            let (oko, s4) = OpenMarker env s3;
                                c5 = c4 @ [Call_mmap (DumpFd s3)]
                            in if \<not> oko then (c5, s4)
                               else
                                 let (ts, s5) = perf_get_timestamp env s4;
                                     Header = Header1\<lparr>Hdr_Magic := LLVM_PERF_JIT_MAGIC,
                                                Hdr_Version := LLVM_PERF_JIT_VERSION,
                                                Hdr_TotalSize := of_nat sizeof_Header,
                                                Hdr_Pid := Pid s5,
                                                Hdr_Timestamp := ts\<rparr>;
                                     s6 = stream_write (bytes_Header Header) s5;
                                     c6 = c5 @ [Call_clock_gettime, Call_write_Header]
                                 in if \<not> env_has_error env
                                    then (c6, s6\<lparr>SuccessfullyInitialized := True\<rparr>)
                                    else (c6, s6))"

section \<open>Code-emission events\<close>

text \<open>
  What the listener reads of an emitted object: the symbols with their sizes
  (\<^verbatim>\<open>computeSymbolSizes\<close>), each symbol's type, name and address (\<open>None\<close> when the
  \<^verbatim>\<open>Expected\<close> holds an error), and the line table of an address range as the DWARF
  context answers it. Of \<^verbatim>\<open>DILineInfo\<close> only the members the listener reads are kept.
\<close>

datatype SymbolType = ST_Unknown | ST_Data | ST_Debug | ST_File | ST_Function | ST_Other

record SymbolRef =
  getType :: "SymbolType option"
  getName :: "bytes option"
  getAddress :: "64 word option"

record DILineInfo =
  FileName :: bytes
  Line :: "32 word"
  Discriminator :: "32 word"

type_synonym DILineInfoTable = "(64 word \<times> DILineInfo) list"

record ObjectFile =
  computeSymbolSizes :: "(SymbolRef \<times> 64 word) list"
  getLineInfoForAddressRange :: "64 word \<Rightarrow> 64 word \<Rightarrow> DILineInfoTable"

text \<open>The \<^verbatim>\<open>CodeSize\<close> bytes of memory starting at \<^verbatim>\<open>CodeAddr\<close>.\<close>

definition read_memory :: "Env \<Rightarrow> 64 word \<Rightarrow> 64 word \<Rightarrow> bytes" where
  "read_memory env CodeAddr CodeSize =
     map (\<lambda>i. env_memory env (CodeAddr + of_nat i)) [0..<unat CodeSize]"

text \<open>
  \<^verbatim>\<open>rec.Prefix.TotalSize\<close> is a \<^verbatim>\<open>uint32_t\<close>: the sum is computed in 64 bits and
  truncated by the assignment. The symbol name is written with the byte that follows it
  in the string table, its terminating NUL.
\<close>

definition NotifyCode ::
  "Env \<Rightarrow> bytes \<Rightarrow> 64 word \<Rightarrow> 64 word \<Rightarrow> PerfJITEventListener \<Rightarrow> PerfJITEventListener" where
  "NotifyCode env Symbol CodeAddr CodeSize s =
     (if CodeSize = 0 then s
      else
        let (ts, s1) = perf_get_timestamp env s;
            rec = \<lparr>CL_Prefix = \<lparr>Id = record_type_id JIT_CODE_LOAD,
                                TotalSize = ucast (of_nat sizeof_RecordCodeLoad +
                                                   of_nat (length Symbol) + 1 + CodeSize :: 64 word),
                                Timestamp = ts\<rparr>,
                   CL_Pid = Pid s1,
                   CL_Tid = env_get_threadid env,
                   CL_Vma = 0,
                   CL_CodeAddr = CodeAddr,
                   CL_CodeSize = CodeSize,
                   CL_CodeIndex = CodeGeneration s1\<rparr>;
            s2 = s1\<lparr>CodeGeneration := CodeGeneration s1 + 1\<rparr>;
            s3 = stream_write (bytes_RecordCodeLoad rec) s2;
            s4 = stream_write (Symbol @ [0]) s3
        in stream_write (read_memory env CodeAddr CodeSize) s4)"

text \<open>The first loop of \<^verbatim>\<open>NotifyDebug\<close>, in \<^verbatim>\<open>uint32_t\<close> arithmetic.\<close>

definition debug_TotalSize :: "DILineInfoTable \<Rightarrow> 32 word" where
  "debug_TotalSize Lines =
     fold (\<lambda>It total. total + of_nat sizeof_DebugEntry + (of_nat (length (FileName (snd It))) + 1))
       Lines (of_nat sizeof_RecordDebugInfo)"

text \<open>The body of the second loop: one entry and its file name.\<close>

definition write_DebugEntry ::
  "64 word \<times> DILineInfo \<Rightarrow> PerfJITEventListener \<Rightarrow> PerfJITEventListener" where
  "write_DebugEntry It s =
     (let LineInfo = \<lparr>DE_Addr = fst It + 0x40, DE_Lineno = Line (snd It),
                      DE_Discrim = Discriminator (snd It)\<rparr>;
          s1 = stream_write (bytes_DebugEntry LineInfo) s
      in stream_write (FileName (snd It) @ [0]) s1)"

text \<open>\<open>None\<close> is the failed \<^verbatim>\<open>assert(SuccessfullyInitialized)\<close>.\<close>

definition NotifyDebug ::
  "Env \<Rightarrow> 64 word \<Rightarrow> DILineInfoTable \<Rightarrow> PerfJITEventListener \<Rightarrow> PerfJITEventListener option" where
  "NotifyDebug env CodeAddr Lines s =
     (if \<not> SuccessfullyInitialized s then None
      else if Lines = [] then Some s
      else
        let (ts, s1) = perf_get_timestamp env s;
            rec = \<lparr>DI_Prefix = \<lparr>Id = record_type_id JIT_CODE_DEBUG_INFO,
                                TotalSize = debug_TotalSize Lines,
                                Timestamp = ts\<rparr>,
                   DI_CodeAddr = CodeAddr,
                   DI_NrEntry = of_nat (length Lines)\<rparr>;
            s2 = stream_write (bytes_RecordDebugInfo rec) s1
        in Some (fold write_DebugEntry Lines s2))"

text \<open>One iteration of the loop over the symbols; a \<^verbatim>\<open>continue\<close> leaves the state as it is.\<close>

definition symbol_step ::
  "Env \<Rightarrow> ObjectFile \<Rightarrow> SymbolRef \<times> 64 word \<Rightarrow> PerfJITEventListener \<Rightarrow> PerfJITEventListener option" where
  "symbol_step env DebugObj P s =
     (case getType (fst P) of
        None \<Rightarrow> Some s
      | Some SymType \<Rightarrow>
          if SymType \<noteq> ST_Function then Some s
          else (case getName (fst P) of
                  None \<Rightarrow> Some s
                | Some Name \<Rightarrow>
                    (case getAddress (fst P) of
                       None \<Rightarrow> Some s
                     | Some Addr \<Rightarrow>
                         let Size = snd P;
                             Lines = getLineInfoForAddressRange DebugObj Addr Size
                         in (case NotifyDebug env Addr Lines s of
                               None \<Rightarrow> None
                             | Some s1 \<Rightarrow> Some (NotifyCode env Name Addr Size s1)))))"

fun for_symbols ::
  "Env \<Rightarrow> ObjectFile \<Rightarrow> (SymbolRef \<times> 64 word) list \<Rightarrow> PerfJITEventListener \<Rightarrow> PerfJITEventListener option" where
  "for_symbols env DebugObj [] s = Some s"
| "for_symbols env DebugObj (P # Ps) s =
     (case symbol_step env DebugObj P s of
        None \<Rightarrow> None
      | Some s' \<Rightarrow> for_symbols env DebugObj Ps s')"

text \<open>The final \<^verbatim>\<open>Dumpstream->flush()\<close> does not change what was handed to the stream.\<close>

definition NotifyObjectEmitted ::
  "Env \<Rightarrow> ObjectFile \<Rightarrow> PerfJITEventListener \<Rightarrow> PerfJITEventListener option" where
  "NotifyObjectEmitted env DebugObj s =
     (if \<not> SuccessfullyInitialized s then Some s
      else for_symbols env DebugObj (computeSymbolSizes DebugObj) s)"

definition NotifyFreeingObject :: "ObjectFile \<Rightarrow> PerfJITEventListener \<Rightarrow> PerfJITEventListener" where
  "NotifyFreeingObject Obj s = s"

definition CloseMarker :: "PerfJITEventListener \<Rightarrow> PerfJITEventListener" where
  "CloseMarker s = (if MarkerAddr s = NULL then s else s\<lparr>MarkerAddr := NULL\<rparr>)"

definition PerfJITEventListener_dtor :: "PerfJITEventListener \<Rightarrow> PerfJITEventListener" where
  "PerfJITEventListener_dtor s = (if MarkerAddr s \<noteq> NULL then CloseMarker s else s)"

text \<open>The events a session receives after its construction.\<close>

datatype event = ObjectEmitted ObjectFile | FreeingObject ObjectFile

fun notify :: "Env \<Rightarrow> event \<Rightarrow> PerfJITEventListener \<Rightarrow> PerfJITEventListener option" where
  "notify env (ObjectEmitted Obj) s = NotifyObjectEmitted env Obj s"
| "notify env (FreeingObject Obj) s = Some (NotifyFreeingObject Obj s)"

fun run_events :: "Env \<Rightarrow> event list \<Rightarrow> PerfJITEventListener \<Rightarrow> PerfJITEventListener option" where
  "run_events env [] s = Some s"
| "run_events env (e # es) s =
     (case notify env e s of None \<Rightarrow> None | Some s' \<Rightarrow> run_events env es s')"

section \<open>Observing a session\<close>

text \<open>What \<^verbatim>\<open>perf_get_timestamp\<close> returns at the \<open>n\<close>-th reading of the clock.\<close>

definition timestamp_at :: "Env \<Rightarrow> nat \<Rightarrow> 64 word" where
  "timestamp_at env n = (case env_clock env n of None \<Rightarrow> 0 | Some ts \<Rightarrow> timespec_to_ns ts)"

text \<open>The bytes handed to the stream so far, and those added between two states.\<close>

definition dump :: "PerfJITEventListener \<Rightarrow> bytes" where
  "dump s = (case Dumpstream s of None \<Rightarrow> [] | Some d \<Rightarrow> d)"

definition written :: "PerfJITEventListener \<Rightarrow> PerfJITEventListener \<Rightarrow> bytes" where
  "written s s' = drop (length (dump s)) (dump s')"

text \<open>
  A code range as the loop of \<^verbatim>\<open>NotifyObjectEmitted\<close> passes it on: the arguments of
  the calls \<^verbatim>\<open>NotifyDebug(Addr, Lines)\<close> and \<^verbatim>\<open>NotifyCode(Name, Addr, Size)\<close>.
  \<open>symbol_range\<close> is \<open>None\<close> for a symbol the loop skips; \<open>emit_range\<close> is the pair of
  calls; the lemmas \<open>symbol_step_eq\<close>, \<open>for_symbols_eq\<close> and \<open>run_events_active\<close> relate
  them to the loop.
\<close>

record code_range =
  r_Name :: bytes
  r_Addr :: "64 word"
  r_Size :: "64 word"
  r_Lines :: DILineInfoTable

definition symbol_range :: "ObjectFile \<Rightarrow> SymbolRef \<times> 64 word \<Rightarrow> code_range option" where
  "symbol_range DebugObj P =
     (case (getType (fst P), getName (fst P), getAddress (fst P)) of
        (Some ST_Function, Some Name, Some Addr) \<Rightarrow>
          Some \<lparr>r_Name = Name, r_Addr = Addr, r_Size = snd P,
                r_Lines = getLineInfoForAddressRange DebugObj Addr (snd P)\<rparr>
      | _ \<Rightarrow> None)"

definition object_ranges :: "ObjectFile \<Rightarrow> code_range list" where
  "object_ranges DebugObj = List.map_filter (symbol_range DebugObj) (computeSymbolSizes DebugObj)"

fun session_ranges :: "event list \<Rightarrow> code_range list" where
  "session_ranges [] = []"
| "session_ranges (ObjectEmitted Obj # es) = object_ranges Obj @ session_ranges es"
| "session_ranges (FreeingObject Obj # es) = session_ranges es"

definition emit_range :: "Env \<Rightarrow> code_range \<Rightarrow> PerfJITEventListener \<Rightarrow> PerfJITEventListener option" where
  "emit_range env r s =
     (case NotifyDebug env (r_Addr r) (r_Lines r) s of
        None \<Rightarrow> None
      | Some s1 \<Rightarrow> Some (NotifyCode env (r_Name r) (r_Addr r) (r_Size r) s1))"

fun emit_ranges :: "Env \<Rightarrow> code_range list \<Rightarrow> PerfJITEventListener \<Rightarrow> PerfJITEventListener option" where
  "emit_ranges env [] s = Some s"
| "emit_ranges env (r # rs) s =
     (case emit_range env r s of None \<Rightarrow> None | Some s' \<Rightarrow> emit_ranges env rs s')"

text \<open>
  For each range in turn, the bytes \<^verbatim>\<open>NotifyDebug\<close> and the bytes \<^verbatim>\<open>NotifyCode\<close> added to
  the stream (either may be empty).
\<close>

fun emitted_chunks :: "Env \<Rightarrow> code_range list \<Rightarrow> PerfJITEventListener \<Rightarrow> (bytes \<times> bytes) list" where
  "emitted_chunks env [] s = []"
| "emitted_chunks env (r # rs) s =
     (case NotifyDebug env (r_Addr r) (r_Lines r) s of
        None \<Rightarrow> []
      | Some s1 \<Rightarrow>
          let s2 = NotifyCode env (r_Name r) (r_Addr r) (r_Size r) s1
          in (written s s1, written s1 s2) # emitted_chunks env rs s2)"

text \<open>
  The fields of a record, read at their offsets in its bytes: the prefix (kind at 0, total
  size at 4, timestamp at 8), the code address and the code index of a code load record (at
  32 and 48), the code address and the number of entries of a debug info record (at 16 and
  24).
\<close>

definition field_Id :: "bytes \<Rightarrow> 32 word" where
  "field_Id w = rd32 w"

definition field_TotalSize :: "bytes \<Rightarrow> 32 word" where
  "field_TotalSize w = rd32 (drop 4 w)"

definition field_Timestamp :: "bytes \<Rightarrow> 64 word" where
  "field_Timestamp w = rd64 (drop 8 w)"

definition field_CL_CodeAddr :: "bytes \<Rightarrow> 64 word" where
  "field_CL_CodeAddr w = rd64 (drop 32 w)"

definition field_CodeIndex :: "bytes \<Rightarrow> 64 word" where
  "field_CodeIndex w = rd64 (drop 48 w)"

definition field_DI_CodeAddr :: "bytes \<Rightarrow> 64 word" where
  "field_DI_CodeAddr w = rd64 (drop 16 w)"

definition field_DI_NrEntry :: "bytes \<Rightarrow> 64 word" where
  "field_DI_NrEntry w = rd64 (drop 24 w)"

text \<open>The code indices of the code load records among the chunks of a session.\<close>

definition code_indices :: "(bytes \<times> bytes) list \<Rightarrow> 64 word list" where
  "code_indices chunks = map (field_CodeIndex \<circ> snd) (filter (\<lambda>c. snd c \<noteq> []) chunks)"

section \<open>The bytes of the two records\<close>

text \<open>
  The bytes \<^verbatim>\<open>NotifyDebug\<close> and \<^verbatim>\<open>NotifyCode\<close> hand to the stream in a given state, written
  out as one sequence each (the lemmas \<open>NotifyDebug_eq\<close> and \<open>NotifyCode_eq\<close> show that the
  functions write exactly these), and their lengths.
\<close>

definition entry_bytes :: "64 word \<times> DILineInfo \<Rightarrow> bytes" where
  "entry_bytes It =
     le64 (fst It + 0x40) @ le32 (Line (snd It)) @ le32 (Discriminator (snd It)) @
     FileName (snd It) @ [0]"

definition DebugInfo_bytes :: "Env \<Rightarrow> 64 word \<Rightarrow> DILineInfoTable \<Rightarrow> PerfJITEventListener \<Rightarrow> bytes" where
  "DebugInfo_bytes env CodeAddr Lines s =
     le32 2 @ le32 (debug_TotalSize Lines) @ le64 (timestamp_at env (ClockReads s)) @
     le64 CodeAddr @ le64 (of_nat (length Lines)) @ concat (map entry_bytes Lines)"

definition CodeLoad_bytes :: "Env \<Rightarrow> bytes \<Rightarrow> 64 word \<Rightarrow> 64 word \<Rightarrow> PerfJITEventListener \<Rightarrow> bytes" where
  "CodeLoad_bytes env Symbol CodeAddr CodeSize s =
     le32 0 @ le32 (ucast (56 + of_nat (length Symbol) + 1 + CodeSize :: 64 word)) @
     le64 (timestamp_at env (ClockReads s)) @
     le32 (Pid s) @ le32 (env_get_threadid env) @ le64 0 @ le64 CodeAddr @ le64 CodeSize @
     le64 (CodeGeneration s) @ Symbol @ [0] @ read_memory env CodeAddr CodeSize"

definition debug_length :: "DILineInfoTable \<Rightarrow> nat" where
  "debug_length Lines =
     sizeof_RecordDebugInfo +
     sum_list (map (\<lambda>It. sizeof_DebugEntry + (length (FileName (snd It)) + 1)) Lines)"

definition code_load_length :: "bytes \<Rightarrow> 64 word \<Rightarrow> nat" where
  "code_load_length Symbol CodeSize = sizeof_RecordCodeLoad + (length Symbol + 1) + unat CodeSize"

section \<open>The steps of the initialisation\<close>

text \<open>
  The conditions under which the constructor returns early, read off its checks:
  the clock, the two directories, the dump file, the own executable, the marker, the
  stream's error state.
\<close>

definition base_Path :: "Env \<Rightarrow> string" where
  "base_Path env =
     (case env_JITDUMPDIR env of
        Some BaseDir \<Rightarrow> BaseDir
      | None \<Rightarrow> (case env_home_directory env of Some h \<Rightarrow> h | None \<Rightarrow> ''.'')) @ ''/.debug/jit/''"

definition model_Path :: "Env \<Rightarrow> string" where
  "model_Path env = base_Path env @ JIT_LANG @ ''-jit-'' @ env_strftime env"

definition Header0 :: LLVMPerfJitHeader where
  "Header0 = \<lparr>Hdr_Magic = 0, Hdr_Version = 0, Hdr_TotalSize = 0, Hdr_ElfMach = 0, Hdr_Pad1 = 0,
              Hdr_Pid = 0, Hdr_Timestamp = 0, Hdr_Flags = 0\<rparr>"

definition init_step_fails :: "Env \<Rightarrow> bool" where
  "init_step_fails env =
     (timestamp_at env 0 = 0 \<or>
      \<not> env_create_directories env (base_Path env) \<or>
      (case env_createUniqueDirectory env (model_Path env) of
         None \<Rightarrow> True
       | Some dir \<Rightarrow>
           env_openFileForWrite env (dir @ ''jit-'' @ show_int (sint (env_getpid env)) @ ''.dump'')
             = None) \<or>
      \<not> fst (FillMachine env Header0) \<or>
      \<not> env_mmap env \<or>
      env_has_error env)"

text \<open>Some call satisfying \<open>P\<close> comes strictly before some call satisfying \<open>Q\<close>.\<close>

fun is_mmap :: "call \<Rightarrow> bool" where
  "is_mmap (Call_mmap fd) = True"
| "is_mmap c = False"

fun is_write_Header :: "call \<Rightarrow> bool" where
  "is_write_Header Call_write_Header = True"
| "is_write_Header c = False"

fun precedes :: "('a \<Rightarrow> bool) \<Rightarrow> ('a \<Rightarrow> bool) \<Rightarrow> 'a list \<Rightarrow> bool" where
  "precedes P Q [] = False"
| "precedes P Q (x # xs) = ((P x \<and> list_ex Q xs) \<or> precedes P Q xs)"

section \<open>The consumer's view of the log\<close>

text \<open>
  A reader of the format as the specification lays it out: the header, then records, each
  starting with a prefix whose total size leads to the next record. Record kinds other
  than code load and debug info are skipped. A file path that is the single byte
  \<open>0xFF\<close> stands for the path of the entry before.
\<close>

datatype jit_record =
  CodeLoadRecord LLVMPerfJitRecordCodeLoad bytes bytes
  | DebugInfoRecord LLVMPerfJitRecordDebugInfo "(LLVMPerfJitDebugEntry \<times> bytes) list"

definition decode_Header :: "bytes \<Rightarrow> LLVMPerfJitHeader" where
  "decode_Header bs =
     \<lparr>Hdr_Magic = rd32 bs, Hdr_Version = rd32 (drop 4 bs), Hdr_TotalSize = rd32 (drop 8 bs),
      Hdr_ElfMach = rd32 (drop 12 bs), Hdr_Pad1 = rd32 (drop 16 bs), Hdr_Pid = rd32 (drop 20 bs),
      Hdr_Timestamp = rd64 (drop 24 bs), Hdr_Flags = rd64 (drop 32 bs)\<rparr>"

definition decode_Prefix :: "bytes \<Rightarrow> LLVMPerfJitRecordPrefix" where
  "decode_Prefix bs = \<lparr>Id = rd32 bs, TotalSize = rd32 (drop 4 bs), Timestamp = rd64 (drop 8 bs)\<rparr>"

definition split_NUL :: "bytes \<Rightarrow> (bytes \<times> bytes) option" where
  "split_NUL bs =
     (if 0 \<in> set bs
      then Some (takeWhile (\<lambda>b. b \<noteq> 0) bs, tl (dropWhile (\<lambda>b. b \<noteq> 0) bs))
      else None)"

definition decode_CodeLoad :: "bytes \<Rightarrow> jit_record option" where
  "decode_CodeLoad bs =
     (if length bs < sizeof_RecordCodeLoad then None
      else
        let r = \<lparr>CL_Prefix = decode_Prefix bs, CL_Pid = rd32 (drop 16 bs),
                 CL_Tid = rd32 (drop 20 bs), CL_Vma = rd64 (drop 24 bs),
                 CL_CodeAddr = rd64 (drop 32 bs), CL_CodeSize = rd64 (drop 40 bs),
                 CL_CodeIndex = rd64 (drop 48 bs)\<rparr>
        in case split_NUL (drop sizeof_RecordCodeLoad bs) of
             None \<Rightarrow> None
           | Some (name, code) \<Rightarrow>
               if length code = unat (CL_CodeSize r) then Some (CodeLoadRecord r name code)
               else None)"

fun decode_entries ::
  "nat \<Rightarrow> bytes \<Rightarrow> bytes \<Rightarrow> (LLVMPerfJitDebugEntry \<times> bytes) list option" where
  "decode_entries 0 prev bs = (if bs = [] then Some [] else None)"
| "decode_entries (Suc n) prev bs =
     (if length bs < sizeof_DebugEntry then None
      else case split_NUL (drop sizeof_DebugEntry bs) of
             None \<Rightarrow> None
           | Some (raw, rest) \<Rightarrow>
               let path = (if raw = [0xFF] then prev else raw);
                   e = \<lparr>DE_Addr = rd64 bs, DE_Lineno = rd32 (drop 8 bs),
                        DE_Discrim = rd32 (drop 12 bs)\<rparr>
               in map_option ((#) (e, path)) (decode_entries n path rest))"

definition decode_DebugInfo :: "bytes \<Rightarrow> jit_record option" where
  "decode_DebugInfo bs =
     (if length bs < sizeof_RecordDebugInfo then None
      else
        let r = \<lparr>DI_Prefix = decode_Prefix bs, DI_CodeAddr = rd64 (drop 16 bs),
                 DI_NrEntry = rd64 (drop 24 bs)\<rparr>
        in map_option (DebugInfoRecord r)
             (decode_entries (unat (DI_NrEntry r)) [] (drop sizeof_RecordDebugInfo bs)))"

definition decode_record :: "bytes \<Rightarrow> jit_record list option" where
  "decode_record bs =
     (if Id (decode_Prefix bs) = record_type_id JIT_CODE_LOAD
      then map_option (\<lambda>r. [r]) (decode_CodeLoad bs)
      else if Id (decode_Prefix bs) = record_type_id JIT_CODE_DEBUG_INFO
      then map_option (\<lambda>r. [r]) (decode_DebugInfo bs)
      else Some [])"

function decode_records :: "bytes \<Rightarrow> jit_record list option" where
  "decode_records bs =
     (if bs = [] then Some []
      else if length bs < sizeof_RecordPrefix
              \<or> unat (TotalSize (decode_Prefix bs)) < sizeof_RecordPrefix
              \<or> length bs < unat (TotalSize (decode_Prefix bs))
      then None
      else case decode_record (take (unat (TotalSize (decode_Prefix bs))) bs) of
             None \<Rightarrow> None
           | Some rs \<Rightarrow>
               map_option ((@) rs) (decode_records (drop (unat (TotalSize (decode_Prefix bs))) bs)))"
  by pat_completeness auto
termination
  by (relation "measure length") (auto simp add: sizeof_RecordPrefix_def)

declare decode_records.simps [simp del]

definition decode_stream :: "bytes \<Rightarrow> (LLVMPerfJitHeader \<times> jit_record list) option" where
  "decode_stream bs =
     (if length bs < sizeof_Header \<or> Hdr_Magic (decode_Header bs) \<noteq> LLVM_PERF_JIT_MAGIC
         \<or> length bs < unat (Hdr_TotalSize (decode_Header bs))
      then None
      else map_option (Pair (decode_Header bs))
             (decode_records (drop (unat (Hdr_TotalSize (decode_Header bs))) bs)))"

text \<open>
  What the round trip is to reproduce of an emitted range: for its code, the address, the
  size and the symbol name; for its line table, the code address and, per entry, the address
  with the fixed offset applied, the line, the discriminator and the file.
\<close>

datatype emitted =
  Emitted_Code "64 word" "64 word" bytes
  | Emitted_Debug "64 word" "(64 word \<times> 32 word \<times> 32 word \<times> bytes) list"

fun view :: "jit_record \<Rightarrow> emitted" where
  "view (CodeLoadRecord r name code) = Emitted_Code (CL_CodeAddr r) (CL_CodeSize r) name"
| "view (DebugInfoRecord r es) =
     Emitted_Debug (DI_CodeAddr r)
       (map (\<lambda>e. (DE_Addr (fst e), DE_Lineno (fst e), DE_Discrim (fst e), snd e)) es)"

definition range_view :: "code_range \<Rightarrow> emitted list" where
  "range_view r =
     (if r_Lines r = [] then []
      else [Emitted_Debug (r_Addr r)
              (map (\<lambda>It. (fst It + 0x40, Line (snd It), Discriminator (snd It), FileName (snd It)))
                 (r_Lines r))]) @
     (if r_Size r = 0 then [] else [Emitted_Code (r_Addr r) (r_Size r) (r_Name r)])"

text \<open>
  A range the format can represent: names and paths are C strings (no NUL inside), no path
  is the one byte that the format reserves, and each record is shorter than \<open>2 ^ 32\<close>
  bytes, the range of the prefix's total size.
\<close>

definition representable :: "code_range \<Rightarrow> bool" where
  "representable r =
     (0 \<notin> set (r_Name r) \<and>
      list_all (\<lambda>It. 0 \<notin> set (FileName (snd It)) \<and> FileName (snd It) \<noteq> [0xFF]) (r_Lines r) \<and>
      code_load_length (r_Name r) (r_Size r) < 2 ^ 32 \<and>
      debug_length (r_Lines r) < 2 ^ 32)"

text \<open>The two records as the reader returns them.\<close>

definition CodeLoad_record :: "Env \<Rightarrow> bytes \<Rightarrow> 64 word \<Rightarrow> 64 word \<Rightarrow> PerfJITEventListener \<Rightarrow> jit_record" where
  "CodeLoad_record env Symbol CodeAddr CodeSize s =
     CodeLoadRecord
       \<lparr>CL_Prefix = \<lparr>Id = 0, TotalSize = ucast (56 + of_nat (length Symbol) + 1 + CodeSize :: 64 word),
                     Timestamp = timestamp_at env (ClockReads s)\<rparr>,
        CL_Pid = Pid s, CL_Tid = env_get_threadid env, CL_Vma = 0, CL_CodeAddr = CodeAddr,
        CL_CodeSize = CodeSize, CL_CodeIndex = CodeGeneration s\<rparr>
       Symbol (read_memory env CodeAddr CodeSize)"

definition DebugInfo_record :: "Env \<Rightarrow> 64 word \<Rightarrow> DILineInfoTable \<Rightarrow> PerfJITEventListener \<Rightarrow> jit_record" where
  "DebugInfo_record env CodeAddr Lines s =
     DebugInfoRecord
       \<lparr>DI_Prefix = \<lparr>Id = 2, TotalSize = debug_TotalSize Lines,
                     Timestamp = timestamp_at env (ClockReads s)\<rparr>,
        DI_CodeAddr = CodeAddr, DI_NrEntry = of_nat (length Lines)\<rparr>
       (map (\<lambda>It. (\<lparr>DE_Addr = fst It + 0x40, DE_Lineno = Line (snd It),
                     DE_Discrim = Discriminator (snd It)\<rparr>, FileName (snd It))) Lines)"

section \<open>Little-endian encoding, generically\<close>

primrec le_gen :: "nat \<Rightarrow> 'a::len word \<Rightarrow> bytes" where
  "le_gen 0 w = []"
| "le_gen (Suc n) w = ucast w # le_gen n (drop_bit 8 w)"

section \<open>Concrete sessions\<close>

text \<open>
  A process with pid 42 and home directory \<^verbatim>\<open>/home/u\<close> on 1 January 2024, whose
  executable starts with an ELF header for machine 62, every call succeeding; the clock
  reads 100 s, 101 s, ... (and 5 ns).
\<close>

definition example_env :: Env where
  "example_env =
     \<lparr>env_getpid = 42, env_get_threadid = 7,
      env_clock = (\<lambda>n. Some (100 + of_nat n, 5)),
      env_JITDUMPDIR = None, env_home_directory = Some ''/home/u'',
      env_create_directories = (\<lambda>p. True),
      env_strftime = ''20240101'',
      env_createUniqueDirectory = (\<lambda>p. Some (p @ ''-a1b2c3'')),
      env_openFileForWrite = (\<lambda>f. Some 3),
      env_self_exe = Some [0x7f, 0x45, 0x4C, 0x46, 2, 1, 1, 0, 0, 0, 0, 0, 0, 0, 0, 0,
                           2, 0, 0x3E, 0],
      env_mmap = True, env_has_error = False,
      env_memory = (\<lambda>a. 0x90)\<rparr>"

definition example_active :: PerfJITEventListener where
  "example_active = snd (PerfJITEventListener_ctor example_env)"


definition example_env_no_directory :: Env where
  "example_env_no_directory = example_env\<lparr>env_create_directories := (\<lambda>p. False)\<rparr>"

text \<open>
  \<open>example_foo\<close> is the function of the specification's scenario, at \<open>0x1000\<close>, 64 bytes
  long, named \<^verbatim>\<open>foo\<close>, with one line entry for \<^verbatim>\<open>a.c\<close>, line 10; \<open>example_bar\<close> a second
  function, \<^verbatim>\<open>bar\<close> at \<open>0x2000\<close>, 32 bytes long, with an empty line table;
  \<open>example_Lines2\<close> a line table with two entries for one file.
\<close>

definition example_Lines :: DILineInfoTable where
  "example_Lines = [(0x1000, \<lparr>FileName = [0x61, 0x2E, 0x63], Line = 10, Discriminator = 0\<rparr>)]"

definition example_Lines2 :: DILineInfoTable where
  "example_Lines2 =
     [(0x1000, \<lparr>FileName = [0x61, 0x2E, 0x63], Line = 10, Discriminator = 0\<rparr>),
      (0x1004, \<lparr>FileName = [0x61, 0x2E, 0x63], Line = 11, Discriminator = 3\<rparr>)]"

definition example_symbol :: "SymbolRef" where
  "example_symbol =
     \<lparr>getType = Some ST_Function, getName = Some [0x66, 0x6F, 0x6F], getAddress = Some 0x1000\<rparr>"

definition example_foo :: ObjectFile where
  "example_foo =
     \<lparr>computeSymbolSizes = [(example_symbol, 64)],
      getLineInfoForAddressRange = (\<lambda>Addr Size. if Addr = 0x1000 then example_Lines else [])\<rparr>"

definition example_bar :: ObjectFile where
  "example_bar =
     \<lparr>computeSymbolSizes =
        [(\<lparr>getType = Some ST_Function, getName = Some [0x62, 0x61, 0x72],
           getAddress = Some 0x2000\<rparr>, 32)],
      getLineInfoForAddressRange = (\<lambda>Addr Size. [])\<rparr>"

text \<open>
  An object with one function named \<^verbatim>\<open>f\<close> of \<open>2 ^ 32\<close> bytes and no line table, and one
  with a function of length zero for which the DWARF context answers the line table of
  the scenario.
\<close>

definition example_huge :: ObjectFile where
  "example_huge =
     \<lparr>computeSymbolSizes =
        [(\<lparr>getType = Some ST_Function, getName = Some [0x66], getAddress = Some 0x1000\<rparr>,
          0x100000000)],
      getLineInfoForAddressRange = (\<lambda>Addr Size. [])\<rparr>"

definition example_zero_length :: ObjectFile where
  "example_zero_length =
     \<lparr>computeSymbolSizes = [(example_symbol, 0)],
      getLineInfoForAddressRange = (\<lambda>Addr Size. if Addr = 0x1000 then example_Lines else [])\<rparr>"

section \<open>Calls of NotifyCode that run at the same time\<close>

text \<open>
  The class has no mutex, and \<^verbatim>\<open>NotifyCode\<close> takes no lock around
  \<^verbatim>\<open>rec.CodeIndex = CodeGeneration++; // under lock!\<close>. To follow calls made by several
  threads on one listener, the body of \<^verbatim>\<open>NotifyCode\<close> is cut at its accesses to the
  members: the test of the code size with the reading of the clock and of \<^verbatim>\<open>Pid\<close>, the
  read of \<^verbatim>\<open>CodeGeneration\<close>, the write of \<^verbatim>\<open>CodeGeneration\<close> (the two halves of the
  increment), and the three writes to the stream. A call is its arguments, the id of its
  thread (\<^verbatim>\<open>get_threadid()\<close>) and the place it has reached with what it holds in \<^verbatim>\<open>rec\<close>.
  \<open>run_schedule\<close> lets the calls take their steps in a given order; the lemma
  \<open>NotifyCode_steps_alone\<close> shows that the steps of one call, taken without another call in
  between, are \<^verbatim>\<open>NotifyCode\<close> as defined above.
\<close>

datatype NotifyCode_pc =
  At_entry
  | At_read_CodeGeneration "64 word" "32 word"
  | At_write_CodeGeneration LLVMPerfJitRecordCodeLoad
  | At_write_rec LLVMPerfJitRecordCodeLoad
  | At_write_Symbol
  | At_write_code
  | Returned

record NotifyCode_call =
  call_Symbol :: bytes
  call_CodeAddr :: "64 word"
  call_CodeSize :: "64 word"
  call_threadid :: "32 word"
  call_pc :: NotifyCode_pc

definition NotifyCode_step ::
  "Env \<Rightarrow> NotifyCode_call \<Rightarrow> PerfJITEventListener \<Rightarrow> NotifyCode_call \<times> PerfJITEventListener" where
  "NotifyCode_step env c s =
     (case call_pc c of
        At_entry \<Rightarrow>
          if call_CodeSize c = 0 then (c\<lparr>call_pc := Returned\<rparr>, s)
          else
            let (ts, s1) = perf_get_timestamp env s
            in (c\<lparr>call_pc := At_read_CodeGeneration ts (Pid s1)\<rparr>, s1)
      | At_read_CodeGeneration ts pid \<Rightarrow>
          let rec = \<lparr>CL_Prefix = \<lparr>Id = record_type_id JIT_CODE_LOAD,
                                   TotalSize = ucast (of_nat sizeof_RecordCodeLoad +
                                                      of_nat (length (call_Symbol c)) + 1 +
                                                      call_CodeSize c :: 64 word),
                                   Timestamp = ts\<rparr>,
                      CL_Pid = pid,
                      CL_Tid = call_threadid c,
                      CL_Vma = 0,
                      CL_CodeAddr = call_CodeAddr c,
                      CL_CodeSize = call_CodeSize c,
                      CL_CodeIndex = CodeGeneration s\<rparr>
          in (c\<lparr>call_pc := At_write_CodeGeneration rec\<rparr>, s)
      | At_write_CodeGeneration rec \<Rightarrow>
          (c\<lparr>call_pc := At_write_rec rec\<rparr>, s\<lparr>CodeGeneration := CL_CodeIndex rec + 1\<rparr>)
      | At_write_rec rec \<Rightarrow>
          (c\<lparr>call_pc := At_write_Symbol\<rparr>, stream_write (bytes_RecordCodeLoad rec) s)
      | At_write_Symbol \<Rightarrow>
          (c\<lparr>call_pc := At_write_code\<rparr>, stream_write (call_Symbol c @ [0]) s)
      | At_write_code \<Rightarrow>
          (c\<lparr>call_pc := Returned\<rparr>,
           stream_write (read_memory env (call_CodeAddr c) (call_CodeSize c)) s)
      | Returned \<Rightarrow> (c, s))"

text \<open>
  A schedule names, step by step, the call that moves next (a number that names no call is
  passed over).
\<close>

fun run_schedule ::
  "Env \<Rightarrow> nat list \<Rightarrow> NotifyCode_call list \<Rightarrow> PerfJITEventListener \<Rightarrow>
   NotifyCode_call list \<times> PerfJITEventListener" where
  "run_schedule env [] cs s = (cs, s)"
| "run_schedule env (i # sched) cs s =
     (if i < length cs
      then let (c', s') = NotifyCode_step env (cs ! i) s
           in run_schedule env sched (cs[i := c']) s'
      else run_schedule env sched cs s)"

text \<open>The code index of a code load record read back from the log.\<close>

fun code_index_of :: "jit_record \<Rightarrow> 64 word option" where
  "code_index_of (CodeLoadRecord r name code) = Some (CL_CodeIndex r)"
| "code_index_of (DebugInfoRecord r es) = None"

text \<open>
  A third function, \<^verbatim>\<open>qux\<close> at \<open>0x3000\<close>, 16 bytes long, with an empty line table; the
  calls of \<^verbatim>\<open>NotifyCode\<close> for \<^verbatim>\<open>bar\<close> by thread 7 and for \<^verbatim>\<open>qux\<close> by thread 8 (the
  environment as thread 8 sees it differs in \<^verbatim>\<open>get_threadid()\<close> only); and a schedule in
  which both calls read \<^verbatim>\<open>CodeGeneration\<close> before either writes it.
\<close>

definition example_qux :: ObjectFile where
  "example_qux =
     \<lparr>computeSymbolSizes =
        [(\<lparr>getType = Some ST_Function, getName = Some [0x71, 0x75, 0x78],
           getAddress = Some 0x3000\<rparr>, 16)],
      getLineInfoForAddressRange = (\<lambda>Addr Size. [])\<rparr>"

definition example_env_thread8 :: Env where
  "example_env_thread8 = example_env\<lparr>env_get_threadid := 8\<rparr>"

definition example_call_bar :: NotifyCode_call where
  "example_call_bar =
     \<lparr>call_Symbol = [0x62, 0x61, 0x72], call_CodeAddr = 0x2000, call_CodeSize = 32,
      call_threadid = 7, call_pc = At_entry\<rparr>"

definition example_call_qux :: NotifyCode_call where
  "example_call_qux =
     \<lparr>call_Symbol = [0x71, 0x75, 0x78], call_CodeAddr = 0x3000, call_CodeSize = 16,
      call_threadid = 8, call_pc = At_entry\<rparr>"

definition example_schedule :: "nat list" where
  "example_schedule = [0, 1, 0, 1, 0, 1, 0, 0, 0, 1, 1, 1]"

text \<open>
  An object with one function of length zero, \<^verbatim>\<open>foo\<close> at \<open>0x1000\<close>, for which the DWARF
  context answers an empty line table.
\<close>

definition example_zero_length_no_lines :: ObjectFile where
  "example_zero_length_no_lines =
     \<lparr>computeSymbolSizes = [(example_symbol, 0)],
      getLineInfoForAddressRange = (\<lambda>Addr Size. [])\<rparr>"

section \<open>Lemmas on the encoding\<close>

lemma length_le [simp]: "length (le16 a) = 2" "length (le32 b) = 4" "length (le64 c) = 8"
  by (simp_all add: le16_def le32_def le64_def)

lemma rd_le_step:
  fixes w :: "'a::len word"
  shows "ucast (ucast w :: 8 word) OR push_bit 8 (take_bit n (drop_bit 8 w)) = take_bit (8 + n) w"
  apply (rule bit_word_eqI)
  apply (auto simp add: bit_simps)
  done

lemma take_bit_word_full: "LENGTH('a) \<le> n \<Longrightarrow> take_bit n (w :: 'a::len word) = w"
  by (rule bit_word_eqI) (auto simp add: bit_simps)

lemma rd_le_gen: "rd_le (le_gen n w) = take_bit (8 * n) w"
proof (induction n arbitrary: w)
  case 0
  show ?case by simp
next
  case (Suc n)
  show ?case by (simp add: Suc rd_le_step)
qed

lemma le16_gen: "le16 w = le_gen 2 w"
  by (simp add: le16_def numeral_2_eq_2)

lemma le32_gen: "le32 w = le_gen 4 w"
  by (simp add: le32_def eval_nat_numeral)

lemma le64_gen: "le64 w = le_gen 8 w"
  by (simp add: le64_def eval_nat_numeral)

lemma rd16_le16 [simp]: "rd16 (le16 w @ xs) = w"
  by (simp add: rd16_def) (simp add: le16_gen rd_le_gen take_bit_word_full)

lemma rd32_le32 [simp]: "rd32 (le32 w @ xs) = w"
  by (simp add: rd32_def) (simp add: le32_gen rd_le_gen take_bit_word_full)

lemma rd64_le64 [simp]: "rd64 (le64 w @ xs) = w"
  by (simp add: rd64_def) (simp add: le64_gen rd_le_gen take_bit_word_full)

section \<open>What the two notifications write\<close>

lemma perf_get_timestamp_eq:
  "perf_get_timestamp env s =
     (timestamp_at env (ClockReads s), s\<lparr>ClockReads := Suc (ClockReads s)\<rparr>)"
  by (simp add: perf_get_timestamp_def timestamp_at_def Let_def split: option.split)

lemma NotifyCode_zero [simp]: "NotifyCode env Symbol CodeAddr 0 s = s"
  by (simp add: NotifyCode_def)

lemma NotifyCode_eq:
  "CodeSize \<noteq> 0 \<Longrightarrow>
   NotifyCode env Symbol CodeAddr CodeSize s =
     s\<lparr>Dumpstream := map_option (\<lambda>d. d @ CodeLoad_bytes env Symbol CodeAddr CodeSize s) (Dumpstream s),
       CodeGeneration := CodeGeneration s + 1,
       ClockReads := Suc (ClockReads s)\<rparr>"
  apply (cases "Dumpstream s")
   apply (simp_all add: NotifyCode_def perf_get_timestamp_eq Let_def stream_write_def CodeLoad_bytes_def bytes_RecordCodeLoad_def
      bytes_RecordPrefix_def sizeof_RecordCodeLoad_def)
  done

lemma write_DebugEntry_eq:
  "write_DebugEntry It s =
     s\<lparr>Dumpstream := map_option (\<lambda>d. d @ entry_bytes It) (Dumpstream s)\<rparr>"
  by (cases "Dumpstream s")
     (simp_all add: write_DebugEntry_def stream_write_def Let_def entry_bytes_def
        bytes_DebugEntry_def)

lemma fold_write_DebugEntry:
  "fold write_DebugEntry Lines s =
     s\<lparr>Dumpstream := map_option (\<lambda>d. d @ concat (map entry_bytes Lines)) (Dumpstream s)\<rparr>"
proof (induction Lines arbitrary: s)
  case Nil
  show ?case by (cases "Dumpstream s") simp_all
next
  case (Cons It Lines)
  have "fold write_DebugEntry (It # Lines) s = fold write_DebugEntry Lines (write_DebugEntry It s)"
    by simp
  also have "\<dots> = (write_DebugEntry It s)\<lparr>Dumpstream :=
      map_option (\<lambda>d. d @ concat (map entry_bytes Lines)) (Dumpstream (write_DebugEntry It s))\<rparr>"
    by (rule Cons.IH)
  also have "\<dots> = s\<lparr>Dumpstream :=
      map_option (\<lambda>d. d @ concat (map entry_bytes (It # Lines))) (Dumpstream s)\<rparr>"
    by (cases "Dumpstream s") (simp_all add: write_DebugEntry_eq)
  finally show ?case .
qed

lemma NotifyDebug_uninit: "\<not> SuccessfullyInitialized s \<Longrightarrow> NotifyDebug env CodeAddr Lines s = None"
  by (simp add: NotifyDebug_def)

lemma NotifyDebug_Nil [simp]: "SuccessfullyInitialized s \<Longrightarrow> NotifyDebug env CodeAddr [] s = Some s"
  by (simp add: NotifyDebug_def)

lemma NotifyDebug_eq:
  "SuccessfullyInitialized s \<Longrightarrow> Lines \<noteq> [] \<Longrightarrow>
   NotifyDebug env CodeAddr Lines s =
     Some (s\<lparr>Dumpstream := map_option (\<lambda>d. d @ DebugInfo_bytes env CodeAddr Lines s) (Dumpstream s),
             ClockReads := Suc (ClockReads s)\<rparr>)"
  apply (cases "Dumpstream s")
   apply (simp_all add: NotifyDebug_def perf_get_timestamp_eq Let_def stream_write_def DebugInfo_bytes_def bytes_RecordDebugInfo_def
      bytes_RecordPrefix_def fold_write_DebugEntry)
  done

lemma NotifyCode_init [simp]:
  "SuccessfullyInitialized (NotifyCode env Symbol CodeAddr CodeSize s) = SuccessfullyInitialized s"
  by (cases "CodeSize = 0") (simp_all add: NotifyCode_eq)

lemma NotifyDebug_init:
  "NotifyDebug env CodeAddr Lines s = Some s' \<Longrightarrow> SuccessfullyInitialized s'"
  by (cases "Lines = []") (auto simp add: NotifyDebug_def perf_get_timestamp_eq Let_def
       fold_write_DebugEntry stream_write_def split: if_splits)

lemma NotifyDebug_total:
  "SuccessfullyInitialized s \<Longrightarrow> \<exists>s'. NotifyDebug env CodeAddr Lines s = Some s'"
  by (cases "Lines = []") (simp_all add: NotifyDebug_eq)

lemma written_append:
  "Dumpstream s = Some d \<Longrightarrow> Dumpstream s' = Some (d @ w) \<Longrightarrow> written s s' = w"
  by (simp add: written_def dump_def)

lemma written_same [simp]: "written s s = []"
  by (simp add: written_def)

lemma NotifyCode_written:
  "CodeSize \<noteq> 0 \<Longrightarrow> Dumpstream s = Some d \<Longrightarrow>
   written s (NotifyCode env Symbol CodeAddr CodeSize s) = CodeLoad_bytes env Symbol CodeAddr CodeSize s"
  by (rule written_append) (simp_all add: NotifyCode_eq)

lemma NotifyDebug_written:
  "SuccessfullyInitialized s \<Longrightarrow> Lines \<noteq> [] \<Longrightarrow> Dumpstream s = Some d \<Longrightarrow>
   NotifyDebug env CodeAddr Lines s = Some s' \<Longrightarrow>
   written s s' = DebugInfo_bytes env CodeAddr Lines s"
  by (rule written_append) (auto simp add: NotifyDebug_eq)

lemma NotifyDebug_step:
  assumes "SuccessfullyInitialized s" and "Dumpstream s = Some d"
  shows "\<exists>s1. NotifyDebug env CodeAddr Lines s = Some s1 \<and>
           Dumpstream s1 = Some (d @ written s s1) \<and> SuccessfullyInitialized s1 \<and>
           CodeGeneration s1 = CodeGeneration s \<and>
           written s s1 = (if Lines = [] then [] else DebugInfo_bytes env CodeAddr Lines s)"
proof (cases "Lines = []")
  case True
  then show ?thesis using assms by simp
next
  case False
  let ?s1 = "s\<lparr>Dumpstream := Some (d @ DebugInfo_bytes env CodeAddr Lines s),
               ClockReads := Suc (ClockReads s)\<rparr>"
  have n: "NotifyDebug env CodeAddr Lines s = Some ?s1"
    by (simp add: NotifyDebug_eq [OF assms(1) False] assms(2))
  have w: "written s ?s1 = DebugInfo_bytes env CodeAddr Lines s"
    by (rule written_append [OF assms(2)]) simp
  show ?thesis
    apply (rule exI [where x = ?s1])
    apply (simp only: n w)
    using assms(1) False apply simp
    done
qed

lemma NotifyCode_step:
  assumes "Dumpstream s = Some d"
  shows "Dumpstream (NotifyCode env Symbol CodeAddr CodeSize s) =
           Some (d @ written s (NotifyCode env Symbol CodeAddr CodeSize s)) \<and>
         CodeGeneration (NotifyCode env Symbol CodeAddr CodeSize s) =
           CodeGeneration s + (if CodeSize = 0 then 0 else 1) \<and>
         written s (NotifyCode env Symbol CodeAddr CodeSize s) =
           (if CodeSize = 0 then [] else CodeLoad_bytes env Symbol CodeAddr CodeSize s)"
proof (cases "CodeSize = 0")
  case True
  then show ?thesis using assms by simp
next
  case False
  show ?thesis
    by (simp only: NotifyCode_written [OF False assms])
       (simp add: NotifyCode_eq [OF False] assms False)
qed

section \<open>The fields and the sizes of the records\<close>

lemma length_read_memory [simp]: "length (read_memory env CodeAddr CodeSize) = unat CodeSize"
  by (simp add: read_memory_def)

lemma length_CodeLoad_bytes:
  "length (CodeLoad_bytes env Symbol CodeAddr CodeSize s) = code_load_length Symbol CodeSize"
  by (simp add: CodeLoad_bytes_def code_load_length_def sizeof_RecordCodeLoad_def)

lemma length_entry_bytes: "length (entry_bytes It) = sizeof_DebugEntry + (length (FileName (snd It)) + 1)"
  by (simp add: entry_bytes_def sizeof_DebugEntry_def)

lemma length_concat_entry_bytes:
  "length (concat (map entry_bytes Lines)) =
     sum_list (map (\<lambda>It. sizeof_DebugEntry + (length (FileName (snd It)) + 1)) Lines)"
  by (induction Lines) (simp_all add: length_entry_bytes)

lemma length_DebugInfo_bytes:
  "length (DebugInfo_bytes env CodeAddr Lines s) = debug_length Lines"
  by (simp add: DebugInfo_bytes_def debug_length_def length_concat_entry_bytes
      sizeof_RecordDebugInfo_def)

lemma bytes_nonempty:
  "CodeLoad_bytes env Symbol CodeAddr CodeSize s \<noteq> []"
  "DebugInfo_bytes env CodeAddr Lines s \<noteq> []"
  by (simp_all add: CodeLoad_bytes_def DebugInfo_bytes_def le32_def)

lemma field_TotalSize_CodeLoad:
  "field_TotalSize (CodeLoad_bytes env Symbol CodeAddr CodeSize s) =
     ucast (56 + of_nat (length Symbol) + 1 + CodeSize :: 64 word)"
  by (simp add: field_TotalSize_def CodeLoad_bytes_def)

lemma field_TotalSize_DebugInfo:
  "field_TotalSize (DebugInfo_bytes env CodeAddr Lines s) = debug_TotalSize Lines"
  by (simp add: field_TotalSize_def DebugInfo_bytes_def)

lemma CodeLoad_bytes_fields:
  "field_Id (CodeLoad_bytes env Symbol CodeAddr CodeSize s) = 0"
  "field_Timestamp (CodeLoad_bytes env Symbol CodeAddr CodeSize s) = timestamp_at env (ClockReads s)"
  "field_CodeIndex (CodeLoad_bytes env Symbol CodeAddr CodeSize s) = CodeGeneration s"
  by (simp_all add: CodeLoad_bytes_def field_Id_def field_Timestamp_def field_CodeIndex_def)

lemma CodeLoad_bytes_CodeAddr:
  "field_CL_CodeAddr (CodeLoad_bytes env Symbol CodeAddr CodeSize s) = CodeAddr"
  by (simp add: CodeLoad_bytes_def field_CL_CodeAddr_def)

lemma DebugInfo_bytes_fields:
  "field_Id (DebugInfo_bytes env CodeAddr Lines s) = 2"
  "field_Timestamp (DebugInfo_bytes env CodeAddr Lines s) = timestamp_at env (ClockReads s)"
  by (simp_all add: DebugInfo_bytes_def field_Id_def field_Timestamp_def)

lemma DebugInfo_bytes_more_fields:
  "field_DI_CodeAddr (DebugInfo_bytes env CodeAddr Lines s) = CodeAddr"
  "field_DI_NrEntry (DebugInfo_bytes env CodeAddr Lines s) = of_nat (length Lines)"
  "drop sizeof_RecordDebugInfo (DebugInfo_bytes env CodeAddr Lines s) = concat (map entry_bytes Lines)"
  by (simp_all add: DebugInfo_bytes_def field_DI_CodeAddr_def field_DI_NrEntry_def
      sizeof_RecordDebugInfo_def)

lemma unat_ucast_of_nat_64_32: "unat (ucast (of_nat k :: 64 word) :: 32 word) = k mod 2 ^ 32"
proof -
  have "unat (ucast (of_nat k :: 64 word) :: 32 word) = (k mod 2 ^ 64) mod 2 ^ 32"
    by (simp add: unsigned_ucast_eq unat_of_nat take_bit_eq_mod)
  also have "\<dots> = k mod 2 ^ 32"
    by (rule mod_mod_cancel) simp
  finally show ?thesis .
qed

lemma CodeLoad_TotalSize:
  "unat (ucast (56 + of_nat (length Symbol) + 1 + CodeSize :: 64 word) :: 32 word) =
     code_load_length Symbol CodeSize mod 2 ^ 32"
proof -
  have "(56 + of_nat (length Symbol) + 1 + CodeSize :: 64 word) =
      of_nat (code_load_length Symbol CodeSize)"
    by (simp add: code_load_length_def sizeof_RecordCodeLoad_def)
  then show ?thesis by (simp only: unat_ucast_of_nat_64_32)
qed

lemma fold_debug_TotalSize:
  "fold (\<lambda>It total. total + of_nat sizeof_DebugEntry + (of_nat (length (FileName (snd It))) + 1))
     Lines (acc :: 32 word) =
   acc + of_nat (sum_list (map (\<lambda>It. sizeof_DebugEntry + (length (FileName (snd It)) + 1)) Lines))"
  by (induction Lines arbitrary: acc) simp_all

lemma debug_TotalSize_eq: "debug_TotalSize Lines = of_nat (debug_length Lines)"
  by (simp add: debug_TotalSize_def fold_debug_TotalSize debug_length_def)

lemma unat_debug_TotalSize: "unat (debug_TotalSize Lines) = debug_length Lines mod 2 ^ 32"
  by (simp add: debug_TotalSize_eq unat_of_nat)

lemma length_le_debug_length: "length Lines \<le> debug_length Lines"
proof -
  have "length Lines \<le> sum_list (map (\<lambda>It. sizeof_DebugEntry + (length (FileName (snd It)) + 1)) Lines)"
    by (induction Lines) (simp_all add: sizeof_DebugEntry_def)
  then show ?thesis by (simp add: debug_length_def)
qed

section \<open>The constructor\<close>

lemma InitDebuggingDir_eq:
  "InitDebuggingDir env s =
     (if \<not> env_create_directories env (base_Path env)
      then ([Call_create_directories (base_Path env)], False, s)
      else case env_createUniqueDirectory env (model_Path env) of
             None \<Rightarrow> ([Call_create_directories (base_Path env),
                        Call_createUniqueDirectory (model_Path env)], False, s)
           | Some dir \<Rightarrow> ([Call_create_directories (base_Path env),
                           Call_createUniqueDirectory (model_Path env)], True,
                          s\<lparr>JitPath := dir\<rparr>))"
  by (simp add: InitDebuggingDir_def base_Path_def model_Path_def Let_def split: option.split)

lemma ctor_inert:
  "init_step_fails env \<Longrightarrow> \<not> SuccessfullyInitialized (snd (PerfJITEventListener_ctor env))"
  by (auto simp add: PerfJITEventListener_ctor_def perf_get_timestamp_eq InitDebuggingDir_eq
      init_step_fails_def Let_def dump_Filename_def OpenMarker_def
      Header0_def stream_write_def split: option.splits prod.splits if_splits)

lemma ctor_active:
  assumes "timestamp_at env 0 \<noteq> 0"
    and "env_create_directories env (base_Path env)"
    and "env_createUniqueDirectory env (model_Path env) = Some dir"
    and "env_openFileForWrite env (dir @ ''jit-'' @ show_int (sint (env_getpid env)) @ ''.dump'') = Some fd"
    and "FillMachine env Header0 = (True, H1)"
    and "env_mmap env"
    and "\<not> env_has_error env"
  shows "PerfJITEventListener_ctor env =
     ([Call_clock_gettime, Call_create_directories (base_Path env),
       Call_createUniqueDirectory (model_Path env),
       Call_openFileForWrite (dir @ ''jit-'' @ show_int (sint (env_getpid env)) @ ''.dump''),
       Call_openFileForRead ''/proc/self/exe'', Call_mmap fd,
       Call_clock_gettime, Call_write_Header],
      \<lparr>Pid = env_getpid env, JitPath = dir, DumpFd = fd,
       Dumpstream = Some (bytes_Header (H1\<lparr>Hdr_Magic := LLVM_PERF_JIT_MAGIC,
                                           Hdr_Version := LLVM_PERF_JIT_VERSION,
                                           Hdr_TotalSize := 40,
                                           Hdr_Pid := env_getpid env,
                                           Hdr_Timestamp := timestamp_at env 1\<rparr>)),
       MarkerAddr = Mapped, SuccessfullyInitialized = True, CodeGeneration = 1,
       ClockReads = 2\<rparr>)"
  using assms
  by (simp add: PerfJITEventListener_ctor_def perf_get_timestamp_eq InitDebuggingDir_eq
     Let_def dump_Filename_def Header0_def[symmetric] OpenMarker_def
     stream_write_def sizeof_Header_def numeral_2_eq_2)

lemma ctor_active_stream:
  assumes "SuccessfullyInitialized (snd (PerfJITEventListener_ctor env))"
  shows "\<exists>H. Dumpstream (snd (PerfJITEventListener_ctor env)) = Some (bytes_Header H) \<and>
           Hdr_Magic H = LLVM_PERF_JIT_MAGIC \<and> Hdr_TotalSize H = 40 \<and>
           Hdr_Pid H = env_getpid env \<and>
           CodeGeneration (snd (PerfJITEventListener_ctor env)) = 1"
  using assms
  by (auto simp add: PerfJITEventListener_ctor_def perf_get_timestamp_eq InitDebuggingDir_eq
      Let_def dump_Filename_def OpenMarker_def stream_write_def sizeof_Header_def
      split: option.splits prod.splits if_splits)

lemma ctor_calls_cases:
  "fst (PerfJITEventListener_ctor env) \<in>
     {[Call_clock_gettime],
      [Call_clock_gettime, Call_create_directories (base_Path env)],
      [Call_clock_gettime, Call_create_directories (base_Path env),
       Call_createUniqueDirectory (model_Path env)]} \<or>
   (\<exists>dir. env_createUniqueDirectory env (model_Path env) = Some dir \<and>
      (fst (PerfJITEventListener_ctor env) =
        [Call_clock_gettime, Call_create_directories (base_Path env),
         Call_createUniqueDirectory (model_Path env),
         Call_openFileForWrite (dir @ ''jit-'' @ show_int (sint (env_getpid env)) @ ''.dump'')] \<or>
       (\<exists>fd. env_openFileForWrite env
                (dir @ ''jit-'' @ show_int (sint (env_getpid env)) @ ''.dump'') = Some fd \<and>
          (fst (PerfJITEventListener_ctor env) =
            [Call_clock_gettime, Call_create_directories (base_Path env),
             Call_createUniqueDirectory (model_Path env),
             Call_openFileForWrite (dir @ ''jit-'' @ show_int (sint (env_getpid env)) @ ''.dump''),
             Call_openFileForRead ''/proc/self/exe''] \<or>
           fst (PerfJITEventListener_ctor env) =
            [Call_clock_gettime, Call_create_directories (base_Path env),
             Call_createUniqueDirectory (model_Path env),
             Call_openFileForWrite (dir @ ''jit-'' @ show_int (sint (env_getpid env)) @ ''.dump''),
             Call_openFileForRead ''/proc/self/exe'', Call_mmap fd] \<or>
           fst (PerfJITEventListener_ctor env) =
            [Call_clock_gettime, Call_create_directories (base_Path env),
             Call_createUniqueDirectory (model_Path env),
             Call_openFileForWrite (dir @ ''jit-'' @ show_int (sint (env_getpid env)) @ ''.dump''),
             Call_openFileForRead ''/proc/self/exe'', Call_mmap fd,
             Call_clock_gettime, Call_write_Header]))))"
  by (auto simp add: PerfJITEventListener_ctor_def perf_get_timestamp_eq InitDebuggingDir_eq
      Let_def dump_Filename_def OpenMarker_def split: option.splits prod.splits if_splits)

lemma dtor_inert:
  "SuccessfullyInitialized (PerfJITEventListener_dtor s) = SuccessfullyInitialized s"
  by (simp add: PerfJITEventListener_dtor_def CloseMarker_def)

section \<open>Sessions\<close>

lemma symbol_step_eq:
  "symbol_step env DebugObj P s =
     (case symbol_range DebugObj P of None \<Rightarrow> Some s | Some r \<Rightarrow> emit_range env r s)"
  by (simp add: symbol_step_def symbol_range_def emit_range_def Let_def
      split: option.split SymbolType.split)

lemma for_symbols_eq:
  "for_symbols env DebugObj Ps s = emit_ranges env (List.map_filter (symbol_range DebugObj) Ps) s"
proof (induction Ps arbitrary: s)
  case Nil
  show ?case by (simp add: map_filter_simps)
next
  case (Cons P Ps)
  show ?case
    by (cases "symbol_range DebugObj P")
       (simp_all add: symbol_step_eq map_filter_simps Cons split: option.split)
qed

lemma emit_range_init:
  "emit_range env r s = Some s' \<Longrightarrow> SuccessfullyInitialized s'"
  by (auto simp add: emit_range_def split: option.splits dest: NotifyDebug_init)

lemma emit_range_total:
  "SuccessfullyInitialized s \<Longrightarrow> \<exists>s'. emit_range env r s = Some s'"
  using NotifyDebug_total [of s env "r_Addr r" "r_Lines r"]
  by (auto simp add: emit_range_def)

lemma emit_ranges_append:
  "emit_ranges env (rs @ rs') s =
     (case emit_ranges env rs s of None \<Rightarrow> None | Some s' \<Rightarrow> emit_ranges env rs' s')"
  by (induction rs arbitrary: s) (simp_all split: option.split)

lemma emit_ranges_init:
  "SuccessfullyInitialized s \<Longrightarrow> emit_ranges env rs s = Some s' \<Longrightarrow> SuccessfullyInitialized s'"
  by (induction rs arbitrary: s) (auto split: option.splits dest: emit_range_init)

lemma emit_ranges_total:
  "SuccessfullyInitialized s \<Longrightarrow> \<exists>s'. emit_ranges env rs s = Some s'"
proof (induction rs arbitrary: s)
  case Nil
  show ?case by simp
next
  case (Cons r rs)
  from emit_range_total [OF Cons.prems] obtain s1 where 1: "emit_range env r s = Some s1"
    by blast
  with Cons.IH [OF emit_range_init [OF 1]] show ?case by simp
qed

lemma run_events_inert:
  "\<not> SuccessfullyInitialized s \<Longrightarrow> run_events env es s = Some s"
proof (induction es)
  case Nil
  show ?case by simp
next
  case (Cons e es)
  then show ?case
    by (cases e) (simp_all add: NotifyObjectEmitted_def NotifyFreeingObject_def)
qed

lemma run_events_active:
  "SuccessfullyInitialized s \<Longrightarrow> run_events env es s = emit_ranges env (session_ranges es) s"
proof (induction es arbitrary: s)
  case Nil
  show ?case by simp
next
  case (Cons e es)
  show ?case
  proof (cases e)
    case (ObjectEmitted Obj)
    from emit_ranges_total [OF Cons.prems] obtain s1
      where 1: "emit_ranges env (object_ranges Obj) s = Some s1"
      by blast
    have 2: "SuccessfullyInitialized s1"
      by (rule emit_ranges_init [OF Cons.prems 1])
    show ?thesis
      using Cons.prems 1 Cons.IH [OF 2]
      by (simp add: ObjectEmitted NotifyObjectEmitted_def for_symbols_eq emit_ranges_append
          object_ranges_def)
  next
    case (FreeingObject Obj)
    then show ?thesis
      using Cons.prems Cons.IH [OF Cons.prems] by (simp add: NotifyFreeingObject_def)
  qed
qed

lemma NotifyObjectEmitted_active:
  "SuccessfullyInitialized s \<Longrightarrow>
   NotifyObjectEmitted env Obj s = emit_ranges env (session_ranges [ObjectEmitted Obj]) s"
  by (simp add: NotifyObjectEmitted_def for_symbols_eq object_ranges_def)

section \<open>The code indices of a session\<close>

lemma code_indices_Cons:
  "code_indices ((w1, w2) # cs) =
     (if w2 = [] then [] else [field_CodeIndex w2]) @ code_indices cs"
  by (simp add: code_indices_def)

lemma emitted_chunks_general:
  assumes "SuccessfullyInitialized s" and "Dumpstream s = Some d"
  shows "\<exists>s'. emit_ranges env rs s = Some s' \<and>
           Dumpstream s' = Some (d @ concat (map (\<lambda>c. fst c @ snd c) (emitted_chunks env rs s))) \<and>
           CodeGeneration s' = CodeGeneration s + of_nat (length (filter (\<lambda>r. r_Size r \<noteq> 0) rs)) \<and>
           code_indices (emitted_chunks env rs s) =
             map (\<lambda>i. CodeGeneration s + of_nat i) [0..<length (filter (\<lambda>r. r_Size r \<noteq> 0) rs)]"
  using assms
proof (induction rs arbitrary: s d)
  case Nil
  then show ?case by (simp add: code_indices_def)
next
  case (Cons r rs)
  from NotifyDebug_step [OF Cons.prems, of env "r_Addr r" "r_Lines r"]
  obtain s1 where 1: "NotifyDebug env (r_Addr r) (r_Lines r) s = Some s1"
    "Dumpstream s1 = Some (d @ written s s1)" "SuccessfullyInitialized s1"
    "CodeGeneration s1 = CodeGeneration s"
    by blast
  let ?s2 = "NotifyCode env (r_Name r) (r_Addr r) (r_Size r) s1"
  from NotifyCode_step [OF 1(2), of env "r_Name r" "r_Addr r" "r_Size r"]
  have 2: "Dumpstream ?s2 = Some ((d @ written s s1) @ written s1 ?s2)"
    "CodeGeneration ?s2 = CodeGeneration s1 + (if r_Size r = 0 then 0 else 1)"
    "written s1 ?s2 = (if r_Size r = 0 then [] else CodeLoad_bytes env (r_Name r) (r_Addr r) (r_Size r) s1)"
    by simp_all
  have i2: "SuccessfullyInitialized ?s2"
    using 1(3) by simp
  from Cons.IH [OF i2 2(1)]
  obtain s' where 3: "emit_ranges env rs ?s2 = Some s'"
    "Dumpstream s' = Some (((d @ written s s1) @ written s1 ?s2) @
        concat (map (\<lambda>c. fst c @ snd c) (emitted_chunks env rs ?s2)))"
    "CodeGeneration s' = CodeGeneration ?s2 + of_nat (length (filter (\<lambda>r. r_Size r \<noteq> 0) rs))"
    "code_indices (emitted_chunks env rs ?s2) =
       map (\<lambda>i. CodeGeneration ?s2 + of_nat i) [0..<length (filter (\<lambda>r. r_Size r \<noteq> 0) rs)]"
    by blast
  have c: "emitted_chunks env (r # rs) s = (written s s1, written s1 ?s2) # emitted_chunks env rs ?s2"
    by (simp add: 1(1) Let_def)
  have e: "emit_ranges env (r # rs) s = Some s'"
    by (simp add: emit_range_def 1(1) 3(1))
  have x: "code_indices (emitted_chunks env (r # rs) s) =
      map (\<lambda>i. CodeGeneration s + of_nat i) [0..<length (filter (\<lambda>r. r_Size r \<noteq> 0) (r # rs))]"
  proof (cases "r_Size r = 0")
    case True
    have "code_indices (emitted_chunks env (r # rs) s) = code_indices (emitted_chunks env rs ?s2)"
      unfolding c code_indices_Cons 2(3) using True by simp
    also have "\<dots> = map (\<lambda>i. CodeGeneration ?s2 + of_nat i)
        [0..<length (filter (\<lambda>r. r_Size r \<noteq> 0) rs)]"
      by (rule 3(4))
    also have "\<dots> = map (\<lambda>i. CodeGeneration s + of_nat i)
        [0..<length (filter (\<lambda>r. r_Size r \<noteq> 0) (r # rs))]"
      using True by (simp add: 1(4))
    finally show ?thesis .
  next
    case False
    have "written s1 ?s2 \<noteq> []"
      by (simp add: 2(3) False bytes_nonempty)
    then show ?thesis
      using False
      by (simp only: c code_indices_Cons 3(4) 2(2) 1(4))
         (simp add: 2(3) CodeLoad_bytes_fields 1(4) map_upt_Suc add.assoc del: upt_Suc)
  qed
  have g: "CodeGeneration s' =
      CodeGeneration s + of_nat (length (filter (\<lambda>r. r_Size r \<noteq> 0) (r # rs)))"
    unfolding 3(3) 2(2) 1(4) by simp
  have w: "Dumpstream s' =
      Some (d @ concat (map (\<lambda>c. fst c @ snd c) (emitted_chunks env (r # rs) s)))"
    unfolding c 3(2) by simp
  show ?case
    apply (rule exI [where x = s'])
    apply (intro conjI)
       apply (rule e)
      apply (rule w)
     apply (rule g)
    apply (rule x)
    done
qed

lemma sorted_wrt_word_of_nat:
  assumes "n < 2 ^ 64"
  shows "sorted_wrt (<) (map of_nat [1..<Suc n] :: 64 word list)"
proof -
  have "sorted_wrt (\<lambda>x y. (of_nat x :: 64 word) < of_nat y) [1..<Suc n]"
  proof (rule sorted_wrt_mono_rel [OF _ sorted_wrt_upt])
    fix x y
    assume "x \<in> set [1..<Suc n]" "y \<in> set [1..<Suc n]" "x < y"
    then have "x < 2 ^ 64" "y < 2 ^ 64" using assms by auto
    then show "(of_nat x :: 64 word) < of_nat y"
      using \<open>x < y\<close> by (simp add: word_of_nat_less_iff take_bit_nat_eq_self)
  qed
  then show ?thesis by (simp only: sorted_wrt_map)
qed

lemma map_shift_indices:
  "map (\<lambda>i. (1 :: 64 word) + of_nat i) [0..<n] = map of_nat [1..<Suc n]"
proof -
  have "map (\<lambda>i. (1 :: 64 word) + of_nat i) [0..<n] = map (of_nat \<circ> Suc) [0..<n]"
    by simp
  also have "\<dots> = map of_nat (map Suc [0..<n])"
    by (simp only: map_map)
  also have "\<dots> = map of_nat [1..<Suc n]"
    by (simp only: map_Suc_upt One_nat_def)
  finally show ?thesis .
qed

section \<open>Reading the records back\<close>

lemma split_NUL_append:
  "0 \<notin> set name \<Longrightarrow> split_NUL (name @ 0 # rest) = Some (name, rest)"
proof -
  assume n: "0 \<notin> set name"
  then have "takeWhile (\<lambda>b. b \<noteq> 0) (name @ 0 # rest) = name"
    by (induction name) simp_all
  moreover from n have "dropWhile (\<lambda>b. b \<noteq> 0) (name @ 0 # rest) = 0 # rest"
    by (induction name) simp_all
  ultimately show ?thesis
    by (simp add: split_NUL_def)
qed

lemma decode_Prefix_CodeLoad:
  "decode_Prefix (CodeLoad_bytes env Symbol CodeAddr CodeSize s @ rest) =
     \<lparr>Id = 0, TotalSize = ucast (56 + of_nat (length Symbol) + 1 + CodeSize :: 64 word),
      Timestamp = timestamp_at env (ClockReads s)\<rparr>"
  by (simp add: decode_Prefix_def CodeLoad_bytes_def)

lemma decode_Prefix_DebugInfo:
  "decode_Prefix (DebugInfo_bytes env CodeAddr Lines s @ rest) =
     \<lparr>Id = 2, TotalSize = debug_TotalSize Lines, Timestamp = timestamp_at env (ClockReads s)\<rparr>"
  by (simp add: decode_Prefix_def DebugInfo_bytes_def)

lemma decode_CodeLoad_bytes:
  assumes "0 \<notin> set Symbol"
  shows "decode_CodeLoad (CodeLoad_bytes env Symbol CodeAddr CodeSize s) =
     Some (CodeLoadRecord
       \<lparr>CL_Prefix = \<lparr>Id = 0, TotalSize = ucast (56 + of_nat (length Symbol) + 1 + CodeSize :: 64 word),
                     Timestamp = timestamp_at env (ClockReads s)\<rparr>,
        CL_Pid = Pid s, CL_Tid = env_get_threadid env, CL_Vma = 0, CL_CodeAddr = CodeAddr,
        CL_CodeSize = CodeSize, CL_CodeIndex = CodeGeneration s\<rparr>
       Symbol (read_memory env CodeAddr CodeSize))"
proof -
  have p: "decode_Prefix (CodeLoad_bytes env Symbol CodeAddr CodeSize s) =
     \<lparr>Id = 0, TotalSize = ucast (56 + of_nat (length Symbol) + 1 + CodeSize :: 64 word),
      Timestamp = timestamp_at env (ClockReads s)\<rparr>"
    using decode_Prefix_CodeLoad [where rest = "[]"] by simp
  have l: "\<not> length (CodeLoad_bytes env Symbol CodeAddr CodeSize s) < sizeof_RecordCodeLoad"
    by (simp add: length_CodeLoad_bytes code_load_length_def)
  have d: "drop sizeof_RecordCodeLoad (CodeLoad_bytes env Symbol CodeAddr CodeSize s) =
      Symbol @ 0 # read_memory env CodeAddr CodeSize"
    by (simp add: CodeLoad_bytes_def sizeof_RecordCodeLoad_def)
  have f: "rd32 (drop 16 (CodeLoad_bytes env Symbol CodeAddr CodeSize s)) = Pid s"
    "rd32 (drop 20 (CodeLoad_bytes env Symbol CodeAddr CodeSize s)) = env_get_threadid env"
    "rd64 (drop 24 (CodeLoad_bytes env Symbol CodeAddr CodeSize s)) = 0"
    "rd64 (drop 32 (CodeLoad_bytes env Symbol CodeAddr CodeSize s)) = CodeAddr"
    "rd64 (drop 40 (CodeLoad_bytes env Symbol CodeAddr CodeSize s)) = CodeSize"
    "rd64 (drop 48 (CodeLoad_bytes env Symbol CodeAddr CodeSize s)) = CodeGeneration s"
    by (simp_all add: CodeLoad_bytes_def)
  show ?thesis
    unfolding decode_CodeLoad_def
    by (simp only: l if_False Let_def p f d split_NUL_append [OF assms])
       simp
qed

lemma decode_entries_bytes:
  assumes "list_all (\<lambda>It. 0 \<notin> set (FileName (snd It)) \<and> FileName (snd It) \<noteq> [0xFF]) Lines"
  shows "decode_entries (length Lines) prev (concat (map entry_bytes Lines)) =
     Some (map (\<lambda>It. (\<lparr>DE_Addr = fst It + 0x40, DE_Lineno = Line (snd It),
                         DE_Discrim = Discriminator (snd It)\<rparr>, FileName (snd It))) Lines)"
  using assms
proof (induction Lines arbitrary: prev)
  case Nil
  show ?case by simp
next
  case (Cons It Lines)
  have n: "0 \<notin> set (FileName (snd It))" "FileName (snd It) \<noteq> [0xFF]"
    and r: "list_all (\<lambda>It. 0 \<notin> set (FileName (snd It)) \<and> FileName (snd It) \<noteq> [0xFF]) Lines"
    using Cons.prems by simp_all
  let ?rest = "concat (map entry_bytes Lines)"
  have e: "concat (map entry_bytes (It # Lines)) =
      le64 (fst It + 0x40) @ le32 (Line (snd It)) @ le32 (Discriminator (snd It)) @
      FileName (snd It) @ 0 # ?rest"
    by (simp add: entry_bytes_def)
  have d: "drop sizeof_DebugEntry (concat (map entry_bytes (It # Lines))) =
      FileName (snd It) @ 0 # ?rest"
    by (subst e) (simp add: sizeof_DebugEntry_def)
  have l: "\<not> length (concat (map entry_bytes (It # Lines))) < sizeof_DebugEntry"
    by (subst e) (simp add: sizeof_DebugEntry_def)
  have f: "rd64 (concat (map entry_bytes (It # Lines))) = fst It + 0x40"
    "rd32 (drop 8 (concat (map entry_bytes (It # Lines)))) = Line (snd It)"
    "rd32 (drop 12 (concat (map entry_bytes (It # Lines)))) = Discriminator (snd It)"
    by (simp_all only: e) simp_all
  have "decode_entries (Suc (length Lines)) prev (concat (map entry_bytes (It # Lines))) =
      map_option ((#) (\<lparr>DE_Addr = fst It + 0x40, DE_Lineno = Line (snd It),
                         DE_Discrim = Discriminator (snd It)\<rparr>, FileName (snd It)))
        (decode_entries (length Lines) (FileName (snd It)) ?rest)"
    by (simp only: decode_entries.simps l if_False d split_NUL_append [OF n(1)] Let_def f)
       (simp add: n(2))
  then show ?case
    by (simp add: Cons.IH [OF r])
qed

lemma decode_DebugInfo_bytes:
  assumes "list_all (\<lambda>It. 0 \<notin> set (FileName (snd It)) \<and> FileName (snd It) \<noteq> [0xFF]) Lines"
    and "debug_length Lines < 2 ^ 32"
  shows "decode_DebugInfo (DebugInfo_bytes env CodeAddr Lines s) =
     Some (DebugInfoRecord
       \<lparr>DI_Prefix = \<lparr>Id = 2, TotalSize = debug_TotalSize Lines,
                     Timestamp = timestamp_at env (ClockReads s)\<rparr>,
        DI_CodeAddr = CodeAddr, DI_NrEntry = of_nat (length Lines)\<rparr>
       (map (\<lambda>It. (\<lparr>DE_Addr = fst It + 0x40, DE_Lineno = Line (snd It),
                     DE_Discrim = Discriminator (snd It)\<rparr>, FileName (snd It))) Lines))"
proof -
  have p: "decode_Prefix (DebugInfo_bytes env CodeAddr Lines s) =
     \<lparr>Id = 2, TotalSize = debug_TotalSize Lines, Timestamp = timestamp_at env (ClockReads s)\<rparr>"
    using decode_Prefix_DebugInfo [where rest = "[]"] by simp
  have l: "\<not> length (DebugInfo_bytes env CodeAddr Lines s) < sizeof_RecordDebugInfo"
    by (simp add: length_DebugInfo_bytes debug_length_def)
  have d: "drop sizeof_RecordDebugInfo (DebugInfo_bytes env CodeAddr Lines s) =
      concat (map entry_bytes Lines)"
    by (simp add: DebugInfo_bytes_def sizeof_RecordDebugInfo_def)
  have f: "rd64 (drop 16 (DebugInfo_bytes env CodeAddr Lines s)) = CodeAddr"
    "rd64 (drop 24 (DebugInfo_bytes env CodeAddr Lines s)) = of_nat (length Lines)"
    by (simp_all add: DebugInfo_bytes_def)
  have "length Lines < 2 ^ 64"
    using length_le_debug_length [of Lines] assms(2)
    by (simp add: order_le_less_trans [OF _ less_trans [of _ "2 ^ 32" "2 ^ 64"]])
  then have u: "unat (of_nat (length Lines) :: 64 word) = length Lines"
    by (simp add: unat_of_nat)
  show ?thesis
    unfolding decode_DebugInfo_def
    by (simp only: l if_False Let_def p f d u LLVMPerfJitRecordDebugInfo.simps
          decode_entries_bytes [OF assms(1)])
       simp
qed

lemma decode_records_CodeLoad:
  assumes "0 \<notin> set Symbol" and "code_load_length Symbol CodeSize < 2 ^ 32"
  shows "decode_records (CodeLoad_bytes env Symbol CodeAddr CodeSize s @ rest) =
     map_option ((@) [CodeLoad_record env Symbol CodeAddr CodeSize s]) (decode_records rest)"
proof -
  let ?b = "CodeLoad_bytes env Symbol CodeAddr CodeSize s"
  have "unat (TotalSize (decode_Prefix (?b @ rest))) = code_load_length Symbol CodeSize mod 2 ^ 32"
    by (simp only: decode_Prefix_CodeLoad LLVMPerfJitRecordPrefix.simps CodeLoad_TotalSize)
  then have n: "unat (TotalSize (decode_Prefix (?b @ rest))) = length ?b"
    using assms(2) by (simp add: length_CodeLoad_bytes)
  have l: "56 \<le> length ?b"
    by (simp add: length_CodeLoad_bytes code_load_length_def sizeof_RecordCodeLoad_def)
  have c: "\<not> (?b @ rest = [])"
    "\<not> (length (?b @ rest) < sizeof_RecordPrefix \<or> length ?b < sizeof_RecordPrefix \<or>
        length (?b @ rest) < length ?b)"
    using l by (auto simp add: sizeof_RecordPrefix_def)
  have r: "decode_record ?b = Some [CodeLoad_record env Symbol CodeAddr CodeSize s]"
    using decode_Prefix_CodeLoad [where rest = "[]" and env = env and Symbol = Symbol
        and CodeAddr = CodeAddr and CodeSize = CodeSize and s = s]
    by (simp add: decode_record_def decode_CodeLoad_bytes [OF assms(1)] CodeLoad_record_def)
  show ?thesis
    apply (subst decode_records.simps)
    apply (simp only: n c if_False)
    apply (simp add: r)
    done
qed

lemma decode_records_DebugInfo:
  assumes "list_all (\<lambda>It. 0 \<notin> set (FileName (snd It)) \<and> FileName (snd It) \<noteq> [0xFF]) Lines"
    and "debug_length Lines < 2 ^ 32"
  shows "decode_records (DebugInfo_bytes env CodeAddr Lines s @ rest) =
     map_option ((@) [DebugInfo_record env CodeAddr Lines s])
       (decode_records rest)"
proof -
  let ?b = "DebugInfo_bytes env CodeAddr Lines s"
  have n: "unat (TotalSize (decode_Prefix (?b @ rest))) = length ?b"
    using assms(2)
    by (simp add: decode_Prefix_DebugInfo unat_debug_TotalSize length_DebugInfo_bytes)
  have l: "32 \<le> length ?b"
    by (simp add: length_DebugInfo_bytes debug_length_def sizeof_RecordDebugInfo_def)
  have c: "\<not> (?b @ rest = [])"
    "\<not> (length (?b @ rest) < sizeof_RecordPrefix \<or> length ?b < sizeof_RecordPrefix \<or>
        length (?b @ rest) < length ?b)"
    using l by (auto simp add: sizeof_RecordPrefix_def)
  have r: "decode_record ?b = Some [DebugInfo_record env CodeAddr Lines s]"
    using decode_Prefix_DebugInfo [where rest = "[]" and env = env and CodeAddr = CodeAddr
        and Lines = Lines and s = s]
    by (simp add: decode_record_def decode_DebugInfo_bytes [OF assms] DebugInfo_record_def)
  show ?thesis
    apply (subst decode_records.simps)
    apply (simp only: n c if_False)
    apply (simp add: r)
    done
qed

lemma decode_records_Nil [simp]: "decode_records [] = Some []"
  by (simp add: decode_records.simps)

lemma view_records [simp]:
  "view (CodeLoad_record env Symbol CodeAddr CodeSize s) = Emitted_Code CodeAddr CodeSize Symbol"
  "view (DebugInfo_record env CodeAddr Lines s) =
     Emitted_Debug CodeAddr
       (map (\<lambda>It. (fst It + 0x40, Line (snd It), Discriminator (snd It), FileName (snd It))) Lines)"
  by (simp_all add: CodeLoad_record_def DebugInfo_record_def comp_def)

lemma emit_range_decodes:
  assumes "SuccessfullyInitialized s" and "Dumpstream s = Some d" and "representable r"
  shows "\<exists>s' w rs. emit_range env r s = Some s' \<and> Dumpstream s' = Some (d @ w) \<and>
           SuccessfullyInitialized s' \<and>
           (\<forall>rest. decode_records (w @ rest) = map_option ((@) rs) (decode_records rest)) \<and>
           map view rs = range_view r"
proof -
  have n: "0 \<notin> set (r_Name r)"
    and f: "list_all (\<lambda>It. 0 \<notin> set (FileName (snd It)) \<and> FileName (snd It) \<noteq> [0xFF]) (r_Lines r)"
    and lc: "code_load_length (r_Name r) (r_Size r) < 2 ^ 32"
    and ld: "debug_length (r_Lines r) < 2 ^ 32"
    using assms(3) by (simp_all add: representable_def)
  have id: "map_option ((@) []) x = x" for x :: "jit_record list option"
    by (cases x) simp_all
  have two: "(@) [a, b] = (\<lambda>x. a # b # x)" for a b :: jit_record
    by (rule ext) simp
  show ?thesis
  proof (cases "r_Lines r = []")
    case True
    note e = True
    show ?thesis
    proof (cases "r_Size r = 0")
      case True
      show ?thesis
        apply (rule exI [where x = s], rule exI [where x = "[]"], rule exI [where x = "[]"])
        using assms(1,2) e True
        apply (simp add: emit_range_def range_view_def id)
        done
    next
      case False
      show ?thesis
        apply (rule exI [where x = "NotifyCode env (r_Name r) (r_Addr r) (r_Size r) s"])
        apply (rule exI [where x = "CodeLoad_bytes env (r_Name r) (r_Addr r) (r_Size r) s"])
        apply (rule exI [where x = "[CodeLoad_record env (r_Name r) (r_Addr r) (r_Size r) s]"])
        using assms(1,2) e False
        apply (simp add: emit_range_def range_view_def NotifyCode_eq
            decode_records_CodeLoad [OF n lc])
        done
    qed
  next
    case False
    note e = False
    let ?s1 = "s\<lparr>Dumpstream := Some (d @ DebugInfo_bytes env (r_Addr r) (r_Lines r) s),
                 ClockReads := Suc (ClockReads s)\<rparr>"
    have nd: "NotifyDebug env (r_Addr r) (r_Lines r) s = Some ?s1"
      by (simp add: NotifyDebug_eq [OF assms(1) e] assms(2))
    show ?thesis
    proof (cases "r_Size r = 0")
      case True
      show ?thesis
        apply (rule exI [where x = ?s1])
        apply (rule exI [where x = "DebugInfo_bytes env (r_Addr r) (r_Lines r) s"])
        apply (rule exI [where x = "[DebugInfo_record env (r_Addr r) (r_Lines r) s]"])
        using assms(1) e True
        apply (simp add: emit_range_def range_view_def nd decode_records_DebugInfo [OF f ld])
        done
    next
      case False
      show ?thesis
        apply (rule exI [where x = "NotifyCode env (r_Name r) (r_Addr r) (r_Size r) ?s1"])
        apply (rule exI [where x = "DebugInfo_bytes env (r_Addr r) (r_Lines r) s @
            CodeLoad_bytes env (r_Name r) (r_Addr r) (r_Size r) ?s1"])
        apply (rule exI [where x = "[DebugInfo_record env (r_Addr r) (r_Lines r) s,
            CodeLoad_record env (r_Name r) (r_Addr r) (r_Size r) ?s1]"])
        using assms(1) e False
        apply (simp add: emit_range_def range_view_def nd NotifyCode_eq
            decode_records_DebugInfo [OF f ld] decode_records_CodeLoad [OF n lc]
            option.map_comp comp_def two)
        done
    qed
  qed
qed

lemma emit_ranges_decodes:
  assumes "SuccessfullyInitialized s" and "Dumpstream s = Some d" and "list_all representable rs"
  shows "\<exists>s' w recs. emit_ranges env rs s = Some s' \<and> Dumpstream s' = Some (d @ w) \<and>
           SuccessfullyInitialized s' \<and>
           (\<forall>rest. decode_records (w @ rest) = map_option ((@) recs) (decode_records rest)) \<and>
           map view recs = concat (map range_view rs)"
  using assms
proof (induction rs arbitrary: s d)
  case Nil
  have id: "map_option (\<lambda>a. a) x = x" for x :: "jit_record list option"
    by (cases x) simp_all
  show ?case
    apply (rule exI [where x = s], rule exI [where x = "[]"], rule exI [where x = "[]"])
    using Nil.prems apply (simp add: id)
    done
next
  case (Cons r rs)
  have r: "representable r" and rs: "list_all representable rs"
    using Cons.prems(3) by simp_all
  from emit_range_decodes [OF Cons.prems(1,2) r, of env]
  obtain s1 w1 recs1 where 1: "emit_range env r s = Some s1" "Dumpstream s1 = Some (d @ w1)"
    "SuccessfullyInitialized s1"
    "\<And>rest. decode_records (w1 @ rest) = map_option ((@) recs1) (decode_records rest)"
    "map view recs1 = range_view r"
    by blast
  from Cons.IH [OF 1(3) 1(2) rs]
  obtain s2 w2 recs2 where 2: "emit_ranges env rs s1 = Some s2" "Dumpstream s2 = Some ((d @ w1) @ w2)"
    "SuccessfullyInitialized s2"
    "\<And>rest. decode_records (w2 @ rest) = map_option ((@) recs2) (decode_records rest)"
    "map view recs2 = concat (map range_view rs)"
    by blast
  have d3: "decode_records ((w1 @ w2) @ rest) =
      map_option ((@) (recs1 @ recs2)) (decode_records rest)" for rest
  proof -
    have "decode_records ((w1 @ w2) @ rest) = decode_records (w1 @ (w2 @ rest))"
      by simp
    also have "\<dots> = map_option ((@) recs1) (map_option ((@) recs2) (decode_records rest))"
      by (simp only: 1(4) 2(4))
    also have "\<dots> = map_option ((@) (recs1 @ recs2)) (decode_records rest)"
      by (cases "decode_records rest") simp_all
    finally show ?thesis .
  qed
  have e: "emit_ranges env (r # rs) s = Some s2"
    using 1(1) 2(1) by simp
  have w: "Dumpstream s2 = Some (d @ w1 @ w2)"
    using 2(2) by simp
  have v: "map view (recs1 @ recs2) = concat (map range_view (r # rs))"
    using 1(5) 2(5) by simp
  show ?case
    apply (rule exI [where x = s2], rule exI [where x = "w1 @ w2"],
        rule exI [where x = "recs1 @ recs2"])
    apply (intro conjI allI)
        apply (rule e)
       apply (rule w)
      apply (rule 2(3))
     apply (rule d3)
    apply (rule v)
    done
qed

lemma decode_Header_bytes: "decode_Header (bytes_Header H @ rest) = H"
  by (cases H) (simp add: decode_Header_def bytes_Header_def)

lemma length_bytes_Header [simp]: "length (bytes_Header H) = 40"
  by (simp add: bytes_Header_def)

lemma decode_stream_Header:
  assumes "Hdr_Magic H = LLVM_PERF_JIT_MAGIC" and "Hdr_TotalSize H = 40"
  shows "decode_stream (bytes_Header H @ rest) = map_option (Pair H) (decode_records rest)"
  by (simp add: decode_stream_def decode_Header_bytes assms sizeof_Header_def)

section \<open>The concrete session\<close>

lemma show_nat_42: "show_nat 42 = ''42''"
  by (simp add: show_nat.simps [of 42] show_nat.simps [of 4])

lemma show_int_42: "show_int (sint (42 :: 32 word)) = ''42''"
  by (simp add: show_int_def show_nat_42)

lemma example_FillMachine:
  "FillMachine example_env Header0 = (True, Header0\<lparr>Hdr_ElfMach := 62\<rparr>)"
  by (simp add: FillMachine_def example_env_def Let_def rd16_def)

lemma example_timestamps:
  "timestamp_at example_env n = (100 + of_nat n) * 1000000000 + 5"
  by (simp add: timestamp_at_def example_env_def timespec_to_ns_def)

lemma example_ctor:
  "PerfJITEventListener_ctor example_env =
     ([Call_clock_gettime, Call_create_directories ''/home/u/.debug/jit/'',
       Call_createUniqueDirectory ''/home/u/.debug/jit/llvm-IR-jit-20240101'',
       Call_openFileForWrite ''/home/u/.debug/jit/llvm-IR-jit-20240101-a1b2c3jit-42.dump'',
       Call_openFileForRead ''/proc/self/exe'', Call_mmap 3,
       Call_clock_gettime, Call_write_Header],
      \<lparr>Pid = 42, JitPath = ''/home/u/.debug/jit/llvm-IR-jit-20240101-a1b2c3'', DumpFd = 3,
       Dumpstream = Some (bytes_Header \<lparr>Hdr_Magic = 0x4A695444, Hdr_Version = 1,
          Hdr_TotalSize = 40, Hdr_ElfMach = 62, Hdr_Pad1 = 0, Hdr_Pid = 42,
          Hdr_Timestamp = 101000000005, Hdr_Flags = 0\<rparr>),
       MarkerAddr = Mapped, SuccessfullyInitialized = True, CodeGeneration = 1,
       ClockReads = 2\<rparr>)"
proof -
  have 1: "timestamp_at example_env 0 \<noteq> 0"
    by (simp add: example_timestamps)
  have 2: "env_create_directories example_env (base_Path example_env)"
    by (simp add: example_env_def)
  have 3: "env_createUniqueDirectory example_env (model_Path example_env) =
      Some ''/home/u/.debug/jit/llvm-IR-jit-20240101-a1b2c3''"
    by (simp add: example_env_def model_Path_def base_Path_def JIT_LANG_def)
  have 4: "env_openFileForWrite example_env
      (''/home/u/.debug/jit/llvm-IR-jit-20240101-a1b2c3'' @ ''jit-'' @
        show_int (sint (env_getpid example_env)) @ ''.dump'') = Some 3"
    by (simp add: example_env_def)
  have 5: "env_mmap example_env" "\<not> env_has_error example_env"
    by (simp_all add: example_env_def)
  have 6: "env_getpid example_env = 42"
    by (simp add: example_env_def)
  show ?thesis
    apply (subst ctor_active [OF 1 2 3 4 example_FillMachine 5])
    apply (simp add: 6 show_int_42 base_Path_def model_Path_def JIT_LANG_def example_timestamps
      Header0_def LLVM_PERF_JIT_MAGIC_def LLVM_PERF_JIT_VERSION_def)
    apply (simp add: example_env_def show_int_def show_nat_42)
    done
qed


lemma example_active_eq:
  "example_active =
     \<lparr>Pid = 42, JitPath = ''/home/u/.debug/jit/llvm-IR-jit-20240101-a1b2c3'', DumpFd = 3,
      Dumpstream = Some (bytes_Header \<lparr>Hdr_Magic = 0x4A695444, Hdr_Version = 1,
         Hdr_TotalSize = 40, Hdr_ElfMach = 62, Hdr_Pad1 = 0, Hdr_Pid = 42,
         Hdr_Timestamp = 101000000005, Hdr_Flags = 0\<rparr>),
      MarkerAddr = Mapped, SuccessfullyInitialized = True, CodeGeneration = 1,
      ClockReads = 2\<rparr>"
  by (simp add: example_active_def example_ctor)

lemma example_active_init: "SuccessfullyInitialized example_active"
  by (simp add: example_active_eq)

lemma example_active_Dumpstream:
  "Dumpstream example_active = Some (bytes_Header \<lparr>Hdr_Magic = 0x4A695444, Hdr_Version = 1,
         Hdr_TotalSize = 40, Hdr_ElfMach = 62, Hdr_Pad1 = 0, Hdr_Pid = 42,
         Hdr_Timestamp = 101000000005, Hdr_Flags = 0\<rparr>)"
  by (simp add: example_active_eq)

lemma example_foo_ranges:
  "session_ranges [ObjectEmitted example_foo] =
     [\<lparr>r_Name = [0x66, 0x6F, 0x6F], r_Addr = 0x1000, r_Size = 64, r_Lines = example_Lines\<rparr>]"
  by (simp add: object_ranges_def example_foo_def example_symbol_def symbol_range_def
      map_filter_simps)

lemma example_huge_ranges:
  "session_ranges [ObjectEmitted example_huge] =
     [\<lparr>r_Name = [0x66], r_Addr = 0x1000, r_Size = 0x100000000, r_Lines = []\<rparr>]"
  by (simp add: object_ranges_def example_huge_def symbol_range_def map_filter_simps)

lemma example_zero_length_ranges:
  "session_ranges [ObjectEmitted example_zero_length] =
     [\<lparr>r_Name = [0x66, 0x6F, 0x6F], r_Addr = 0x1000, r_Size = 0, r_Lines = example_Lines\<rparr>]"
  by (simp add: object_ranges_def example_zero_length_def example_symbol_def symbol_range_def
      map_filter_simps)

lemma example_two_ranges:
  "session_ranges [ObjectEmitted example_foo, ObjectEmitted example_bar] =
     [\<lparr>r_Name = [0x66, 0x6F, 0x6F], r_Addr = 0x1000, r_Size = 64, r_Lines = example_Lines\<rparr>,
      \<lparr>r_Name = [0x62, 0x61, 0x72], r_Addr = 0x2000, r_Size = 32, r_Lines = []\<rparr>]"
  by (simp add: object_ranges_def example_foo_def example_bar_def example_symbol_def
      symbol_range_def map_filter_simps)

section \<open>Calls one after another, and calls at the same time\<close>

text \<open>
  When the events of a session come one after another, the code indices of the code load
  records, in the order of writing, are 1, 2, ..., \<open>n\<close> (for fewer than \<open>2 ^ 64\<close> of them,
  the range of the counter).
\<close>

lemma serialized_code_indices:
  assumes "SuccessfullyInitialized (snd (PerfJITEventListener_ctor env))"
    and "length (filter (\<lambda>r. r_Size r \<noteq> 0) (session_ranges es)) < 2 ^ 64"
  shows "\<exists>s. run_events env es (snd (PerfJITEventListener_ctor env)) = Some s \<and>
           dump s = dump (snd (PerfJITEventListener_ctor env)) @
             concat (map (\<lambda>c. fst c @ snd c)
               (emitted_chunks env (session_ranges es) (snd (PerfJITEventListener_ctor env)))) \<and>
           code_indices (emitted_chunks env (session_ranges es) (snd (PerfJITEventListener_ctor env))) =
             map of_nat [1..<Suc (length (filter (\<lambda>r. r_Size r \<noteq> 0) (session_ranges es)))] \<and>
           sorted_wrt (<)
             (code_indices (emitted_chunks env (session_ranges es) (snd (PerfJITEventListener_ctor env)))) \<and>
           distinct
             (code_indices (emitted_chunks env (session_ranges es) (snd (PerfJITEventListener_ctor env)))) \<and>
           CodeGeneration s = 1 + of_nat (length (filter (\<lambda>r. r_Size r \<noteq> 0) (session_ranges es)))"
proof -
  let ?s0 = "snd (PerfJITEventListener_ctor env)"
  let ?n = "length (filter (\<lambda>r. r_Size r \<noteq> 0) (session_ranges es))"
  let ?cs = "emitted_chunks env (session_ranges es) ?s0"
  from ctor_active_stream [OF assms(1)]
  obtain H where H: "Dumpstream ?s0 = Some (bytes_Header H)" "CodeGeneration ?s0 = 1"
    by blast
  from emitted_chunks_general [OF assms(1) H(1), of env "session_ranges es"]
  obtain s where 1: "emit_ranges env (session_ranges es) ?s0 = Some s"
    "Dumpstream s = Some (bytes_Header H @ concat (map (\<lambda>c. fst c @ snd c) ?cs))"
    "CodeGeneration s = CodeGeneration ?s0 + of_nat ?n"
    "code_indices ?cs = map (\<lambda>i. CodeGeneration ?s0 + of_nat i) [0..<?n]"
    by blast
  have r: "run_events env es ?s0 = Some s"
    by (simp add: run_events_active [OF assms(1)] 1(1))
  have d: "dump s = dump ?s0 @ concat (map (\<lambda>c. fst c @ snd c) ?cs)"
    by (simp add: dump_def H(1) 1(2))
  have i: "code_indices ?cs = map of_nat [1..<Suc ?n]"
    by (simp only: 1(4) H(2) map_shift_indices)
  have so: "sorted_wrt (<) (code_indices ?cs)"
    by (simp only: i sorted_wrt_word_of_nat [OF assms(2)])
  then have di: "distinct (code_indices ?cs)"
    by (simp add: strict_sorted_iff)
  have g: "CodeGeneration s = 1 + of_nat ?n"
    by (simp only: 1(3) H(2))
  show ?thesis
    apply (rule exI [where x = s])
    apply (intro conjI)
         apply (rule r)
        apply (rule d)
       apply (rule i)
      apply (rule so)
     apply (rule di)
    apply (rule g)
    done
qed

lemma NotifyCode_steps_alone:
  assumes "call_pc c = At_entry" and "call_threadid c = env_get_threadid env"
  shows "run_schedule env [0, 0, 0, 0, 0, 0] [c] s =
           ([c\<lparr>call_pc := Returned\<rparr>],
            NotifyCode env (call_Symbol c) (call_CodeAddr c) (call_CodeSize c) s)"
proof (cases "call_CodeSize c = 0")
  case True
  then show ?thesis
    using assms by (simp add: NotifyCode_step_def)
next
  case False
  then show ?thesis
    using assms
    by (simp add: NotifyCode_step_def NotifyCode_def perf_get_timestamp_eq Let_def)
qed

lemma NotifyObjectEmitted_one_function:
  assumes "SuccessfullyInitialized s"
    and "computeSymbolSizes DebugObj =
           [(\<lparr>getType = Some ST_Function, getName = Some Name, getAddress = Some Addr\<rparr>, Size)]"
    and "getLineInfoForAddressRange DebugObj Addr Size = []"
  shows "NotifyObjectEmitted env DebugObj s = Some (NotifyCode env Name Addr Size s)"
  using assms
  by (simp add: NotifyObjectEmitted_def symbol_step_def Let_def)

lemma code_index_of_CodeLoad_record [simp]:
  "code_index_of (CodeLoad_record env Symbol CodeAddr CodeSize s) = Some (CodeGeneration s)"
  by (simp add: CodeLoad_record_def)

lemma decode_two_CodeLoad:
  assumes "0 \<notin> set n1" and "code_load_length n1 z1 < 2 ^ 32"
    and "0 \<notin> set n2" and "code_load_length n2 z2 < 2 ^ 32"
  shows "map_option (map code_index_of)
           (decode_records (CodeLoad_bytes e1 n1 a1 z1 s1 @ CodeLoad_bytes e2 n2 a2 z2 s2)) =
         Some [Some (CodeGeneration s1), Some (CodeGeneration s2)]"
proof -
  have "decode_records (CodeLoad_bytes e2 n2 a2 z2 s2 @ []) =
      Some [CodeLoad_record e2 n2 a2 z2 s2]"
    by (simp only: decode_records_CodeLoad [OF assms(3,4)]) simp
  then show ?thesis
    by (simp add: decode_records_CodeLoad [OF assms(1,2)])
qed

lemma example_race_run:
  "run_schedule example_env example_schedule [example_call_bar, example_call_qux] example_active =
     ([example_call_bar\<lparr>call_pc := Returned\<rparr>, example_call_qux\<lparr>call_pc := Returned\<rparr>],
      example_active
        \<lparr>Dumpstream := Some (dump example_active @
            CodeLoad_bytes example_env [0x62, 0x61, 0x72] 0x2000 32 example_active @
            CodeLoad_bytes example_env_thread8 [0x71, 0x75, 0x78] 0x3000 16
              (example_active\<lparr>ClockReads := 3\<rparr>)),
         CodeGeneration := 2, ClockReads := 4\<rparr>)"
  by (simp add: example_schedule_def example_call_bar_def example_call_qux_def
      NotifyCode_step_def perf_get_timestamp_eq Let_def stream_write_def example_active_eq
      dump_def CodeLoad_bytes_def bytes_RecordCodeLoad_def bytes_RecordPrefix_def
      sizeof_RecordCodeLoad_def example_env_thread8_def example_env_def timestamp_at_def
      read_memory_def)

lemma example_serial_run:
  "run_schedule example_env [0, 0, 0, 0, 0, 0, 1, 1, 1, 1, 1, 1]
       [example_call_bar, example_call_qux] example_active =
     ([example_call_bar\<lparr>call_pc := Returned\<rparr>, example_call_qux\<lparr>call_pc := Returned\<rparr>],
      example_active
        \<lparr>Dumpstream := Some (dump example_active @
            CodeLoad_bytes example_env [0x62, 0x61, 0x72] 0x2000 32 example_active @
            CodeLoad_bytes example_env_thread8 [0x71, 0x75, 0x78] 0x3000 16
              (example_active\<lparr>CodeGeneration := 2, ClockReads := 3\<rparr>)),
         CodeGeneration := 3, ClockReads := 4\<rparr>)"
  by (simp add: example_call_bar_def example_call_qux_def
      NotifyCode_step_def perf_get_timestamp_eq Let_def stream_write_def example_active_eq
      dump_def CodeLoad_bytes_def bytes_RecordCodeLoad_def bytes_RecordPrefix_def
      sizeof_RecordCodeLoad_def example_env_thread8_def example_env_def timestamp_at_def
      read_memory_def)

section \<open>The loop body, one range at a time\<close>

lemma emit_range_layout:
  assumes "SuccessfullyInitialized s" and "Dumpstream s = Some d" and "r_Size r \<noteq> 0"
  shows "\<exists>s1 s2. NotifyDebug env (r_Addr r) (r_Lines r) s = Some s1 \<and>
           emit_range env r s = Some s2 \<and>
           Dumpstream s2 = Some (d @ written s s1 @ written s1 s2) \<and>
           written s1 s2 \<noteq> [] \<and>
           field_Id (written s1 s2) = record_type_id JIT_CODE_LOAD \<and>
           field_CL_CodeAddr (written s1 s2) = r_Addr r \<and>
           length (written s1 s2) = code_load_length (r_Name r) (r_Size r) \<and>
           (r_Lines r \<noteq> [] \<longrightarrow>
              written s s1 \<noteq> [] \<and>
              field_Id (written s s1) = record_type_id JIT_CODE_DEBUG_INFO \<and>
              field_DI_CodeAddr (written s s1) = r_Addr r \<and>
              field_DI_NrEntry (written s s1) = of_nat (length (r_Lines r)) \<and>
              length (written s s1) = debug_length (r_Lines r)) \<and>
           (r_Lines r = [] \<longrightarrow> written s s1 = []) \<and>
           (representable r \<longrightarrow>
              map_option (map view) (decode_records (written s s1 @ written s1 s2)) =
                Some (range_view r))"
proof -
  from NotifyDebug_step [OF assms(1,2), of env "r_Addr r" "r_Lines r"]
  obtain s1 where 1: "NotifyDebug env (r_Addr r) (r_Lines r) s = Some s1"
    "Dumpstream s1 = Some (d @ written s s1)" "SuccessfullyInitialized s1"
    "written s s1 = (if r_Lines r = [] then [] else DebugInfo_bytes env (r_Addr r) (r_Lines r) s)"
    by blast
  let ?s2 = "NotifyCode env (r_Name r) (r_Addr r) (r_Size r) s1"
  let ?c = "CodeLoad_bytes env (r_Name r) (r_Addr r) (r_Size r) s1"
  from NotifyCode_step [OF 1(2), of env "r_Name r" "r_Addr r" "r_Size r"] assms(3)
  have 2: "Dumpstream ?s2 = Some ((d @ written s s1) @ written s1 ?s2)"
    "written s1 ?s2 = ?c"
    by simp_all
  have e: "emit_range env r s = Some ?s2"
    by (simp add: emit_range_def 1(1))
  have w: "Dumpstream ?s2 = Some (d @ written s s1 @ written s1 ?s2)"
    using 2(1) by simp
  have c: "written s1 ?s2 \<noteq> []" "field_Id (written s1 ?s2) = record_type_id JIT_CODE_LOAD"
    "field_CL_CodeAddr (written s1 ?s2) = r_Addr r"
    "length (written s1 ?s2) = code_load_length (r_Name r) (r_Size r)"
    unfolding 2(2)
    by (simp_all add: bytes_nonempty CodeLoad_bytes_fields CodeLoad_bytes_CodeAddr
        length_CodeLoad_bytes)
  have dbg: "r_Lines r \<noteq> [] \<longrightarrow>
              written s s1 \<noteq> [] \<and>
              field_Id (written s s1) = record_type_id JIT_CODE_DEBUG_INFO \<and>
              field_DI_CodeAddr (written s s1) = r_Addr r \<and>
              field_DI_NrEntry (written s s1) = of_nat (length (r_Lines r)) \<and>
              length (written s s1) = debug_length (r_Lines r)"
    unfolding 1(4)
    by (simp add: bytes_nonempty DebugInfo_bytes_fields DebugInfo_bytes_more_fields
        length_DebugInfo_bytes)
  have nodbg: "r_Lines r = [] \<longrightarrow> written s s1 = []"
    unfolding 1(4) by simp
  have rt: "representable r \<longrightarrow>
      map_option (map view) (decode_records (written s s1 @ written s1 ?s2)) = Some (range_view r)"
  proof
    assume rep: "representable r"
    from emit_range_decodes [OF assms(1,2) rep, of env]
    obtain s' w recs where 3: "emit_range env r s = Some s'" "Dumpstream s' = Some (d @ w)"
      "\<And>rest. decode_records (w @ rest) = map_option ((@) recs) (decode_records rest)"
      "map view recs = range_view r"
      by blast
    from 3(1) e have "s' = ?s2" by simp
    with 3(2) w have "w = written s s1 @ written s1 ?s2" by simp
    with 3(3) [of "[]"] 3(4)
    show "map_option (map view) (decode_records (written s s1 @ written s1 ?s2)) =
        Some (range_view r)"
      by simp
  qed
  show ?thesis
    apply (rule exI [where x = s1], rule exI [where x = ?s2])
    apply (intro conjI)
             apply (rule 1(1))
            apply (rule e)
           apply (rule w)
          apply (rule c(1))
         apply (rule c(2))
        apply (rule c(3))
       apply (rule c(4))
      apply (rule dbg)
     apply (rule nodbg)
    apply (rule rt)
    done
qed


lemma symbol_range_function:
  assumes "getType (fst P) = Some ST_Function" and "getName (fst P) = Some Name"
    and "getAddress (fst P) = Some Addr"
    and "getLineInfoForAddressRange DebugObj Addr (snd P) = Lines"
  shows "symbol_range DebugObj P =
           Some \<lparr>r_Name = Name, r_Addr = Addr, r_Size = snd P, r_Lines = Lines\<rparr>"
  using assms by (simp add: symbol_range_def)

section \<open>The properties of the specification\<close>

text \<open>
  C1 (as amended). For every record written to the stream, the prefix's total size equals the
  number of bytes written for that record modulo \<open>2 ^ 32\<close>, and so the exact number
  whenever the record is shorter than \<open>2 ^ 32\<close> bytes. A code load record is
  \<open>sizeof(fixed fields) + len(symbolName) + 1 + codeSize\<close> bytes long, a debug info record
  \<open>sizeof(fixed fields)\<close> plus, for each entry, \<open>sizeof(DebugEntry) + len(filePath) + 1\<close>.
  The field is a 32-bit integer: for a code range of \<open>2 ^ 32\<close> bytes named \<^verbatim>\<open>f\<close> it
  holds 58 while 4294967354 bytes are written.
\<close>

theorem C1_total_size_modulo:
  assumes "SuccessfullyInitialized s" and "Dumpstream s = Some d"
  shows "(CodeSize \<noteq> 0 \<longrightarrow>
            (let w = written s (NotifyCode env Symbol CodeAddr CodeSize s)
             in Dumpstream (NotifyCode env Symbol CodeAddr CodeSize s) = Some (d @ w) \<and>
                length w = sizeof_RecordCodeLoad + (length Symbol + 1) + unat CodeSize \<and>
                unat (field_TotalSize w) = length w mod 2 ^ 32 \<and>
                (length w < 2 ^ 32 \<longrightarrow> unat (field_TotalSize w) = length w))) \<and>
         (Lines \<noteq> [] \<longrightarrow>
            (\<exists>s'. NotifyDebug env CodeAddr Lines s = Some s' \<and>
               (let w = written s s'
                in Dumpstream s' = Some (d @ w) \<and>
                   length w = sizeof_RecordDebugInfo +
                     sum_list (map (\<lambda>It. sizeof_DebugEntry + (length (FileName (snd It)) + 1)) Lines) \<and>
                   unat (field_TotalSize w) = length w mod 2 ^ 32 \<and>
                   (length w < 2 ^ 32 \<longrightarrow> unat (field_TotalSize w) = length w))))"
proof (intro conjI impI)
  assume nz: "CodeSize \<noteq> 0"
  let ?s' = "NotifyCode env Symbol CodeAddr CodeSize s"
  let ?b = "CodeLoad_bytes env Symbol CodeAddr CodeSize s"
  have w: "written s ?s' = ?b"
    by (rule NotifyCode_written [OF nz assms(2)])
  have d: "Dumpstream ?s' = Some (d @ ?b)"
    by (simp add: NotifyCode_eq [OF nz] assms(2))
  have l: "length ?b = sizeof_RecordCodeLoad + (length Symbol + 1) + unat CodeSize"
    by (simp add: length_CodeLoad_bytes code_load_length_def)
  have t: "unat (field_TotalSize ?b) = length ?b mod 2 ^ 32"
    by (simp only: field_TotalSize_CodeLoad CodeLoad_TotalSize length_CodeLoad_bytes)
  show "let w = written s ?s'
        in Dumpstream ?s' = Some (d @ w) \<and>
           length w = sizeof_RecordCodeLoad + (length Symbol + 1) + unat CodeSize \<and>
           unat (field_TotalSize w) = length w mod 2 ^ 32 \<and>
           (length w < 2 ^ 32 \<longrightarrow> unat (field_TotalSize w) = length w)"
    unfolding Let_def w using d l t by simp
next
  assume ne: "Lines \<noteq> []"
  let ?b = "DebugInfo_bytes env CodeAddr Lines s"
  let ?s' = "s\<lparr>Dumpstream := Some (d @ ?b), ClockReads := Suc (ClockReads s)\<rparr>"
  have n: "NotifyDebug env CodeAddr Lines s = Some ?s'"
    by (simp add: NotifyDebug_eq [OF assms(1) ne] assms(2))
  have w: "written s ?s' = ?b"
    by (rule written_append [OF assms(2)]) simp
  have l: "length ?b = sizeof_RecordDebugInfo +
      sum_list (map (\<lambda>It. sizeof_DebugEntry + (length (FileName (snd It)) + 1)) Lines)"
    by (simp add: length_DebugInfo_bytes debug_length_def)
  have t: "unat (field_TotalSize ?b) = length ?b mod 2 ^ 32"
    by (simp only: field_TotalSize_DebugInfo unat_debug_TotalSize length_DebugInfo_bytes)
  have "let w = written s ?s'
        in Dumpstream ?s' = Some (d @ w) \<and>
           length w = sizeof_RecordDebugInfo +
             sum_list (map (\<lambda>It. sizeof_DebugEntry + (length (FileName (snd It)) + 1)) Lines) \<and>
           unat (field_TotalSize w) = length w mod 2 ^ 32 \<and>
           (length w < 2 ^ 32 \<longrightarrow> unat (field_TotalSize w) = length w)"
    unfolding Let_def w using l t by simp
  with n show "\<exists>s'. NotifyDebug env CodeAddr Lines s = Some s' \<and>
               (let w = written s s'
                in Dumpstream s' = Some (d @ w) \<and>
                   length w = sizeof_RecordDebugInfo +
                     sum_list (map (\<lambda>It. sizeof_DebugEntry + (length (FileName (snd It)) + 1)) Lines) \<and>
                   unat (field_TotalSize w) = length w mod 2 ^ 32 \<and>
                   (length w < 2 ^ 32 \<longrightarrow> unat (field_TotalSize w) = length w))"
    by blast
qed

text \<open>C1, witness: the scenario's function \<^verbatim>\<open>foo\<close>, 64 bytes, and its line table.\<close>

theorem C1_total_size_modulo_witness:
  "length (written example_active (NotifyCode example_env [0x66, 0x6F, 0x6F] 0x1000 64 example_active)) = 124 \<and>
   unat (field_TotalSize (written example_active
      (NotifyCode example_env [0x66, 0x6F, 0x6F] 0x1000 64 example_active))) = 124 \<and>
   (\<exists>s'. NotifyDebug example_env 0x1000 example_Lines example_active = Some s' \<and>
      length (written example_active s') = 52 \<and>
      unat (field_TotalSize (written example_active s')) = 52)"
  using C1_total_size_modulo [OF example_active_init example_active_Dumpstream,
      where CodeSize = 64 and env = example_env and Symbol = "[0x66, 0x6F, 0x6F]"
        and CodeAddr = "0x1000" and Lines = example_Lines]
  by (auto simp add: Let_def example_Lines_def sizeof_RecordCodeLoad_def sizeof_RecordDebugInfo_def
      sizeof_DebugEntry_def)

text \<open>C1, counterexample to the exact equality: a code range of \<open>2 ^ 32\<close> bytes.\<close>

theorem C1_counterexample:
  "length (written example_active
      (NotifyCode example_env [0x66] 0x1000 0x100000000 example_active)) = 4294967354 \<and>
   unat (field_TotalSize (written example_active
      (NotifyCode example_env [0x66] 0x1000 0x100000000 example_active))) = 58"
proof -
  have nz: "(0x100000000 :: 64 word) \<noteq> 0" by simp
  have w: "written example_active (NotifyCode example_env [0x66] 0x1000 0x100000000 example_active) =
      CodeLoad_bytes example_env [0x66] 0x1000 0x100000000 example_active"
    by (rule NotifyCode_written [OF nz example_active_Dumpstream])
  have l: "code_load_length [0x66] (0x100000000 :: 64 word) = 4294967354"
    by (simp add: code_load_length_def sizeof_RecordCodeLoad_def)
  show ?thesis
    unfolding w length_CodeLoad_bytes field_TotalSize_CodeLoad
    apply (simp only: l)
    apply simp
    done
qed

text \<open>
  C2 (the code departs from the specification). A function symbol of length zero for which the DWARF
  context answers a non-empty line table: \<^verbatim>\<open>NotifyObjectEmitted\<close> calls \<^verbatim>\<open>NotifyDebug\<close>
  before \<^verbatim>\<open>NotifyCode\<close>, and only \<^verbatim>\<open>NotifyCode\<close> returns on a zero code size. In the
  concrete session the event writes the 52 bytes of a debug info record (kind 2, total size
  52, code address \<open>0x1000\<close>, one entry at \<open>0x1040\<close>, line 10, file \<^verbatim>\<open>a.c\<close>), and no code
  load record follows it.
\<close>

theorem C2_zero_length_range_writes_debug_info:
  "\<exists>s. NotifyObjectEmitted example_env example_zero_length example_active = Some s \<and>
       written example_active s =
         [2, 0, 0, 0,  52, 0, 0, 0,  0x05, 0x7C, 0xAC, 0xBF, 0x17, 0, 0, 0,
          0, 0x10, 0, 0, 0, 0, 0, 0,  1, 0, 0, 0, 0, 0, 0, 0,
          0x40, 0x10, 0, 0, 0, 0, 0, 0,  10, 0, 0, 0,  0, 0, 0, 0,  0x61, 0x2E, 0x63, 0] \<and>
       map_option (map view) (decode_records (written example_active s)) =
         Some [Emitted_Debug 0x1000 [(0x1040, 10, 0, [0x61, 0x2E, 0x63])]]"
proof -
  let ?b = "DebugInfo_bytes example_env 0x1000 example_Lines example_active"
  let ?s = "example_active\<lparr>Dumpstream := map_option (\<lambda>d. d @ ?b) (Dumpstream example_active),
              ClockReads := Suc (ClockReads example_active)\<rparr>"
  have ne: "example_Lines \<noteq> []"
    by (simp add: example_Lines_def)
  have n: "NotifyObjectEmitted example_env example_zero_length example_active = Some ?s"
    by (simp only: NotifyObjectEmitted_active [OF example_active_init] example_zero_length_ranges)
       (simp add: emit_range_def NotifyDebug_eq [OF example_active_init ne])
  have w: "written example_active ?s = ?b"
    by (rule written_append [OF example_active_Dumpstream])
       (simp add: example_active_Dumpstream)
  have t: "debug_TotalSize example_Lines = 52"
    by (simp add: debug_TotalSize_eq debug_length_def example_Lines_def sizeof_RecordDebugInfo_def
        sizeof_DebugEntry_def)
  have b: "?b = [2, 0, 0, 0,  52, 0, 0, 0,  0x05, 0x7C, 0xAC, 0xBF, 0x17, 0, 0, 0,
          0, 0x10, 0, 0, 0, 0, 0, 0,  1, 0, 0, 0, 0, 0, 0, 0,
          0x40, 0x10, 0, 0, 0, 0, 0, 0,  10, 0, 0, 0,  0, 0, 0, 0,  0x61, 0x2E, 0x63, 0]"
    unfolding DebugInfo_bytes_def t
    by (simp add: example_timestamps example_active_eq example_Lines_def entry_bytes_def
        le32_def le64_def)
  have r: "list_all (\<lambda>It. 0 \<notin> set (FileName (snd It)) \<and> FileName (snd It) \<noteq> [0xFF]) example_Lines"
    "debug_length example_Lines < 2 ^ 32"
    by (simp_all add: example_Lines_def debug_length_def sizeof_RecordDebugInfo_def
        sizeof_DebugEntry_def)
  have "decode_records (?b @ []) =
      Some [DebugInfo_record example_env 0x1000 example_Lines example_active]"
    by (simp only: decode_records_DebugInfo [OF r]) simp
  then have d: "map_option (map view) (decode_records ?b) =
      Some [Emitted_Debug 0x1000 [(0x1040, 10, 0, [0x61, 0x2E, 0x63])]]"
    by (simp add: example_Lines_def)
  show ?thesis
    apply (rule exI [where x = ?s])
    apply (simp only: n w d)
    apply (simp only: b)
    done
qed

text \<open>
  C3 (the code departs from the specification). The constructor opens the file
  \<^verbatim>\<open>JitPath + "jit-" + Pid + ".dump"\<close> with no separator after the unique directory: in
  the concrete session the directory is
  \<^verbatim>\<open>/home/u/.debug/jit/llvm-IR-jit-20240101-a1b2c3\<close> and the file opened is
  \<^verbatim>\<open>/home/u/.debug/jit/llvm-IR-jit-20240101-a1b2c3jit-42.dump\<close>, beside the directory and
  not inside it.
\<close>

theorem C3_dump_file_outside_unique_directory:
  "JitPath example_active = ''/home/u/.debug/jit/llvm-IR-jit-20240101-a1b2c3'' \<and>
   dump_Filename example_active = ''/home/u/.debug/jit/llvm-IR-jit-20240101-a1b2c3jit-42.dump'' \<and>
   fst (PerfJITEventListener_ctor example_env) ! 3 =
     Call_openFileForWrite ''/home/u/.debug/jit/llvm-IR-jit-20240101-a1b2c3jit-42.dump''"
  by (simp add: example_ctor example_active_eq dump_Filename_def show_int_def show_nat_42)

text \<open>
  C4 (the code departs from the specification). \<^verbatim>\<open>NotifyCode\<close> increments the counter by
  \<^verbatim>\<open>rec.CodeIndex = CodeGeneration++; // under lock!\<close>, and no lock is taken: the class has
  no mutex. Thread 7 emits \<^verbatim>\<open>bar\<close> and thread 8 emits \<^verbatim>\<open>qux\<close> on the concrete session (for
  each, \<^verbatim>\<open>NotifyObjectEmitted\<close> is the steps of its call of \<^verbatim>\<open>NotifyCode\<close>). When both calls
  read \<^verbatim>\<open>CodeGeneration\<close> before either writes it, both return, the log holds two code load
  records that both carry the code index 1, and the counter has advanced once, to 2. With
  the same two calls one after the other the records carry 1 and 2.
\<close>

theorem C4_unlocked_counter_repeats_code_index:
  "NotifyObjectEmitted example_env example_bar example_active =
     Some (snd (run_schedule example_env [0, 0, 0, 0, 0, 0] [example_call_bar] example_active)) \<and>
   NotifyObjectEmitted example_env_thread8 example_qux example_active =
     Some (snd (run_schedule example_env_thread8 [0, 0, 0, 0, 0, 0] [example_call_qux]
                  example_active)) \<and>
   map call_pc (fst (run_schedule example_env example_schedule
                       [example_call_bar, example_call_qux] example_active)) =
     [Returned, Returned] \<and>
   map_option (map code_index_of)
     (decode_records (written example_active
        (snd (run_schedule example_env example_schedule
                [example_call_bar, example_call_qux] example_active)))) =
     Some [Some 1, Some 1] \<and>
   CodeGeneration (snd (run_schedule example_env example_schedule
                          [example_call_bar, example_call_qux] example_active)) = 2 \<and>
   map_option (map code_index_of)
     (decode_records (written example_active
        (snd (run_schedule example_env [0, 0, 0, 0, 0, 0, 1, 1, 1, 1, 1, 1]
                [example_call_bar, example_call_qux] example_active)))) =
     Some [Some 1, Some 2]"
proof (intro conjI)
  have b: "call_pc example_call_bar = At_entry"
    "call_threadid example_call_bar = env_get_threadid example_env"
    "call_Symbol example_call_bar = [0x62, 0x61, 0x72]" "call_CodeAddr example_call_bar = 0x2000"
    "call_CodeSize example_call_bar = 32"
    by (simp_all add: example_call_bar_def example_env_def)
  have q: "call_pc example_call_qux = At_entry"
    "call_threadid example_call_qux = env_get_threadid example_env_thread8"
    "call_Symbol example_call_qux = [0x71, 0x75, 0x78]" "call_CodeAddr example_call_qux = 0x3000"
    "call_CodeSize example_call_qux = 16"
    by (simp_all add: example_call_qux_def example_env_thread8_def)
  show "NotifyObjectEmitted example_env example_bar example_active =
     Some (snd (run_schedule example_env [0, 0, 0, 0, 0, 0] [example_call_bar] example_active))"
    by (simp only: NotifyCode_steps_alone [OF b(1,2)] b snd_conv)
       (rule NotifyObjectEmitted_one_function [OF example_active_init],
        simp_all add: example_bar_def)
  show "NotifyObjectEmitted example_env_thread8 example_qux example_active =
     Some (snd (run_schedule example_env_thread8 [0, 0, 0, 0, 0, 0] [example_call_qux]
                  example_active))"
    by (simp only: NotifyCode_steps_alone [OF q(1,2)] q snd_conv)
       (rule NotifyObjectEmitted_one_function [OF example_active_init],
        simp_all add: example_qux_def)
  have n: "(0 :: 8 word) \<notin> set [0x62, 0x61, 0x72]" "(0 :: 8 word) \<notin> set [0x71, 0x75, 0x78]"
    "code_load_length [0x62, 0x61, 0x72] (32 :: 64 word) < 2 ^ 32"
    "code_load_length [0x71, 0x75, 0x78] (16 :: 64 word) < 2 ^ 32"
    by (simp_all add: code_load_length_def sizeof_RecordCodeLoad_def)
  have g: "CodeGeneration example_active = 1"
    by (simp add: example_active_eq)
  have d: "Dumpstream example_active = Some (dump example_active)"
    by (simp add: dump_def example_active_Dumpstream)
  show "map call_pc (fst (run_schedule example_env example_schedule
                       [example_call_bar, example_call_qux] example_active)) =
     [Returned, Returned]"
    by (simp add: example_race_run)
  show "map_option (map code_index_of)
     (decode_records (written example_active
        (snd (run_schedule example_env example_schedule
                [example_call_bar, example_call_qux] example_active)))) =
     Some [Some 1, Some 1]"
  proof -
    have "written example_active
        (snd (run_schedule example_env example_schedule
                [example_call_bar, example_call_qux] example_active)) =
        CodeLoad_bytes example_env [0x62, 0x61, 0x72] 0x2000 32 example_active @
        CodeLoad_bytes example_env_thread8 [0x71, 0x75, 0x78] 0x3000 16
          (example_active\<lparr>ClockReads := 3\<rparr>)"
      by (simp only: example_race_run snd_conv) (rule written_append [OF d], simp)
    then show ?thesis
      by (simp only: decode_two_CodeLoad [OF n(1,3,2,4)]) (simp add: g)
  qed
  show "CodeGeneration (snd (run_schedule example_env example_schedule
                          [example_call_bar, example_call_qux] example_active)) = 2"
    by (simp add: example_race_run)
  show "map_option (map code_index_of)
     (decode_records (written example_active
        (snd (run_schedule example_env [0, 0, 0, 0, 0, 0, 1, 1, 1, 1, 1, 1]
                [example_call_bar, example_call_qux] example_active)))) =
     Some [Some 1, Some 2]"
  proof -
    have "written example_active
        (snd (run_schedule example_env [0, 0, 0, 0, 0, 0, 1, 1, 1, 1, 1, 1]
                [example_call_bar, example_call_qux] example_active)) =
        CodeLoad_bytes example_env [0x62, 0x61, 0x72] 0x2000 32 example_active @
        CodeLoad_bytes example_env_thread8 [0x71, 0x75, 0x78] 0x3000 16
          (example_active\<lparr>CodeGeneration := 2, ClockReads := 3\<rparr>)"
      by (simp only: example_serial_run snd_conv) (rule written_append [OF d], simp)
    then show ?thesis
      by (simp only: decode_two_CodeLoad [OF n(1,3,2,4)]) (simp add: g)
  qed
qed

text \<open>
  C5 (as amended). For a function symbol of an emitted object in an initialised session, the
  loop body of \<^verbatim>\<open>NotifyObjectEmitted\<close> makes the stream grow by what \<^verbatim>\<open>NotifyDebug\<close> writes
  followed by what \<^verbatim>\<open>NotifyCode\<close> writes, and goes on with the remaining symbols. For a code
  size other than zero the second part is one code load record for the symbol's address;
  with a non-empty line table the first part is one debug info record for the same
  address, with all the table's entries, and so lies before the code load record in the
  stream; with an empty line table the first part is empty, so that only the code load
  record is written. For a range the format can represent, a reader of these bytes gets
  exactly the debug info record (if any) and then the code load record. For a code size of
  zero no code load record is written.
\<close>

theorem C5_debug_info_before_code_load_of_nonzero_size:
  assumes "SuccessfullyInitialized s" and "Dumpstream s = Some d"
    and "getType (fst P) = Some ST_Function" and "getName (fst P) = Some Name"
    and "getAddress (fst P) = Some Addr"
    and "getLineInfoForAddressRange DebugObj Addr (snd P) = Lines"
  shows "\<exists>s1 s2. NotifyDebug env Addr Lines s = Some s1 \<and>
           symbol_step env DebugObj P s = Some s2 \<and>
           SuccessfullyInitialized s2 \<and>
           (computeSymbolSizes DebugObj = P # Ps \<longrightarrow>
              NotifyObjectEmitted env DebugObj s = for_symbols env DebugObj Ps s2) \<and>
           Dumpstream s2 = Some (d @ written s s1 @ written s1 s2) \<and>
           (snd P \<noteq> 0 \<longrightarrow>
              written s1 s2 \<noteq> [] \<and>
              field_Id (written s1 s2) = record_type_id JIT_CODE_LOAD \<and>
              field_CL_CodeAddr (written s1 s2) = Addr \<and>
              length (written s1 s2) = code_load_length Name (snd P) \<and>
              (Lines \<noteq> [] \<longrightarrow>
                 written s s1 \<noteq> [] \<and>
                 field_Id (written s s1) = record_type_id JIT_CODE_DEBUG_INFO \<and>
                 field_DI_CodeAddr (written s s1) = Addr \<and>
                 field_DI_NrEntry (written s s1) = of_nat (length Lines) \<and>
                 length (written s s1) = debug_length Lines) \<and>
              (Lines = [] \<longrightarrow> written s s1 = []) \<and>
              (representable \<lparr>r_Name = Name, r_Addr = Addr, r_Size = snd P, r_Lines = Lines\<rparr> \<longrightarrow>
                 map_option (map view) (decode_records (written s s1 @ written s1 s2)) =
                   Some (range_view
                     \<lparr>r_Name = Name, r_Addr = Addr, r_Size = snd P, r_Lines = Lines\<rparr>))) \<and>
           (snd P = 0 \<longrightarrow> written s1 s2 = [])"
proof -
  let ?r = "\<lparr>r_Name = Name, r_Addr = Addr, r_Size = snd P, r_Lines = Lines\<rparr>"
  have sr: "symbol_range DebugObj P = Some ?r"
    by (rule symbol_range_function [OF assms(3-6)])
  have st: "symbol_step env DebugObj P s = emit_range env ?r s"
    by (simp add: symbol_step_eq sr)
  from NotifyDebug_step [OF assms(1,2), of env Addr Lines]
  obtain s1 where 1: "NotifyDebug env Addr Lines s = Some s1"
    "Dumpstream s1 = Some (d @ written s s1)" "SuccessfullyInitialized s1"
    by blast
  let ?s2 = "NotifyCode env Name Addr (snd P) s1"
  have e: "emit_range env ?r s = Some ?s2"
    by (simp add: emit_range_def 1(1))
  have i2: "SuccessfullyInitialized ?s2"
    using 1(3) by simp
  from NotifyCode_step [OF 1(2), of env Name Addr "snd P"]
  have 2: "Dumpstream ?s2 = Some (d @ written s s1 @ written s1 ?s2)"
    "written s1 ?s2 = (if snd P = 0 then [] else CodeLoad_bytes env Name Addr (snd P) s1)"
    by simp_all
  have no: "computeSymbolSizes DebugObj = P # Ps \<longrightarrow>
      NotifyObjectEmitted env DebugObj s = for_symbols env DebugObj Ps ?s2"
    using assms(1) by (simp add: NotifyObjectEmitted_def st e)
  have z: "snd P = 0 \<longrightarrow> written s1 ?s2 = []"
    by (simp add: 2(2))
  have nz: "snd P \<noteq> 0 \<longrightarrow>
              written s1 ?s2 \<noteq> [] \<and>
              field_Id (written s1 ?s2) = record_type_id JIT_CODE_LOAD \<and>
              field_CL_CodeAddr (written s1 ?s2) = Addr \<and>
              length (written s1 ?s2) = code_load_length Name (snd P) \<and>
              (Lines \<noteq> [] \<longrightarrow>
                 written s s1 \<noteq> [] \<and>
                 field_Id (written s s1) = record_type_id JIT_CODE_DEBUG_INFO \<and>
                 field_DI_CodeAddr (written s s1) = Addr \<and>
                 field_DI_NrEntry (written s s1) = of_nat (length Lines) \<and>
                 length (written s s1) = debug_length Lines) \<and>
              (Lines = [] \<longrightarrow> written s s1 = []) \<and>
              (representable ?r \<longrightarrow>
                 map_option (map view) (decode_records (written s s1 @ written s1 ?s2)) =
                   Some (range_view ?r))"
  proof
    assume "snd P \<noteq> 0"
    then have "r_Size ?r \<noteq> 0" by simp
    from emit_range_layout [OF assms(1,2) this, of env]
    obtain t1 t2 where 3: "NotifyDebug env (r_Addr ?r) (r_Lines ?r) s = Some t1"
      "emit_range env ?r s = Some t2"
      "written t1 t2 \<noteq> [] \<and>
       field_Id (written t1 t2) = record_type_id JIT_CODE_LOAD \<and>
       field_CL_CodeAddr (written t1 t2) = r_Addr ?r \<and>
       length (written t1 t2) = code_load_length (r_Name ?r) (r_Size ?r) \<and>
       (r_Lines ?r \<noteq> [] \<longrightarrow>
          written s t1 \<noteq> [] \<and>
          field_Id (written s t1) = record_type_id JIT_CODE_DEBUG_INFO \<and>
          field_DI_CodeAddr (written s t1) = r_Addr ?r \<and>
          field_DI_NrEntry (written s t1) = of_nat (length (r_Lines ?r)) \<and>
          length (written s t1) = debug_length (r_Lines ?r)) \<and>
       (r_Lines ?r = [] \<longrightarrow> written s t1 = []) \<and>
       (representable ?r \<longrightarrow>
          map_option (map view) (decode_records (written s t1 @ written t1 t2)) =
            Some (range_view ?r))"
      by blast
    have "t1 = s1" using 3(1) 1(1) by simp
    moreover have "t2 = ?s2" using 3(2) e by simp
    ultimately show "written s1 ?s2 \<noteq> [] \<and>
              field_Id (written s1 ?s2) = record_type_id JIT_CODE_LOAD \<and>
              field_CL_CodeAddr (written s1 ?s2) = Addr \<and>
              length (written s1 ?s2) = code_load_length Name (snd P) \<and>
              (Lines \<noteq> [] \<longrightarrow>
                 written s s1 \<noteq> [] \<and>
                 field_Id (written s s1) = record_type_id JIT_CODE_DEBUG_INFO \<and>
                 field_DI_CodeAddr (written s s1) = Addr \<and>
                 field_DI_NrEntry (written s s1) = of_nat (length Lines) \<and>
                 length (written s s1) = debug_length Lines) \<and>
              (Lines = [] \<longrightarrow> written s s1 = []) \<and>
              (representable ?r \<longrightarrow>
                 map_option (map view) (decode_records (written s s1 @ written s1 ?s2)) =
                   Some (range_view ?r))"
      using 3(3) by simp
  qed
  show ?thesis
    apply (rule exI [where x = s1], rule exI [where x = ?s2])
    apply (intro conjI)
          apply (rule 1(1))
         apply (simp only: st e)
        apply (rule i2)
       apply (rule no)
      apply (rule 2(1))
     apply (rule nz)
    apply (rule z)
    done
qed

text \<open>
  C5, witness: on the concrete session, \<^verbatim>\<open>NotifyObjectEmitted\<close> for \<^verbatim>\<open>foo\<close> with its line
  table (176 bytes: the debug info record, then the code load record), for \<^verbatim>\<open>bar\<close> with
  an empty line table (92 bytes: the code load record only), and for a function of
  length zero with an empty line table (nothing).
\<close>

theorem C5_debug_info_before_code_load_of_nonzero_size_witness:
  "(\<exists>s2. NotifyObjectEmitted example_env example_foo example_active = Some s2 \<and>
      length (written example_active s2) = 176 \<and>
      map_option (map view) (decode_records (written example_active s2)) =
        Some [Emitted_Debug 0x1000 [(0x1040, 10, 0, [0x61, 0x2E, 0x63])],
              Emitted_Code 0x1000 64 [0x66, 0x6F, 0x6F]]) \<and>
   (\<exists>s2. NotifyObjectEmitted example_env example_bar example_active = Some s2 \<and>
      length (written example_active s2) = 92 \<and>
      map_option (map view) (decode_records (written example_active s2)) =
        Some [Emitted_Code 0x2000 32 [0x62, 0x61, 0x72]]) \<and>
   (\<exists>s2. NotifyObjectEmitted example_env example_zero_length_no_lines example_active =
          Some s2 \<and>
        written example_active s2 = [])"
proof (intro conjI)
  define d where "d = bytes_Header \<lparr>Hdr_Magic = 0x4A695444, Hdr_Version = 1,
         Hdr_TotalSize = 40, Hdr_ElfMach = 62, Hdr_Pad1 = 0, Hdr_Pid = 42,
         Hdr_Timestamp = 101000000005, Hdr_Flags = 0\<rparr>"
  have D: "Dumpstream example_active = Some d"
    by (simp add: d_def example_active_Dumpstream)
  {
    let ?P = "(example_symbol, 64 :: 64 word)"
    let ?r = "\<lparr>r_Name = [0x66, 0x6F, 0x6F], r_Addr = 0x1000, r_Size = snd ?P,
                r_Lines = example_Lines\<rparr>"
    have p: "getType (fst ?P) = Some ST_Function" "getName (fst ?P) = Some [0x66, 0x6F, 0x6F]"
      "getAddress (fst ?P) = Some 0x1000"
      "getLineInfoForAddressRange example_foo 0x1000 (snd ?P) = example_Lines"
      by (simp_all add: example_symbol_def example_foo_def)
    have c: "computeSymbolSizes example_foo = ?P # []" "snd ?P \<noteq> 0"
      by (simp_all add: example_foo_def)
    have rep: "representable ?r" "example_Lines \<noteq> []"
      by (simp_all add: representable_def example_Lines_def code_load_length_def
          debug_length_def sizeof_RecordCodeLoad_def sizeof_RecordDebugInfo_def
          sizeof_DebugEntry_def)
    have v: "range_view ?r = [Emitted_Debug 0x1000 [(0x1040, 10, 0, [0x61, 0x2E, 0x63])],
                Emitted_Code 0x1000 64 [0x66, 0x6F, 0x6F]]"
      by (simp add: range_view_def example_Lines_def)
    have l: "code_load_length [0x66, 0x6F, 0x6F] (snd ?P) = 124" "debug_length example_Lines = 52"
      by (simp_all add: example_Lines_def code_load_length_def
          debug_length_def sizeof_RecordCodeLoad_def sizeof_RecordDebugInfo_def
          sizeof_DebugEntry_def)
    show "\<exists>s2. NotifyObjectEmitted example_env example_foo example_active = Some s2 \<and>
        length (written example_active s2) = 176 \<and>
        map_option (map view) (decode_records (written example_active s2)) =
          Some [Emitted_Debug 0x1000 [(0x1040, 10, 0, [0x61, 0x2E, 0x63])],
                Emitted_Code 0x1000 64 [0x66, 0x6F, 0x6F]]"
      using C5_debug_info_before_code_load_of_nonzero_size
        [OF example_active_init D p, of example_env "[]"]
      apply (elim exE conjE)
      subgoal for s1 s2
        apply (rule exI [where x = s2])
        apply (simp only: c rep v l written_append [OF D])
        apply auto
        done
      done
  }
  {
    let ?P = "(\<lparr>getType = Some ST_Function, getName = Some [0x62, 0x61, 0x72],
                getAddress = Some 0x2000\<rparr>, 32 :: 64 word)"
    let ?r = "\<lparr>r_Name = [0x62, 0x61, 0x72], r_Addr = 0x2000, r_Size = snd ?P, r_Lines = []\<rparr>"
    have p: "getType (fst ?P) = Some ST_Function" "getName (fst ?P) = Some [0x62, 0x61, 0x72]"
      "getAddress (fst ?P) = Some 0x2000"
      "getLineInfoForAddressRange example_bar 0x2000 (snd ?P) = []"
      by (simp_all add: example_bar_def)
    have c: "computeSymbolSizes example_bar = ?P # []" "snd ?P \<noteq> 0"
      by (simp_all add: example_bar_def)
    have rep: "representable ?r"
      by (simp add: representable_def code_load_length_def
          debug_length_def sizeof_RecordCodeLoad_def sizeof_RecordDebugInfo_def)
    have v: "range_view ?r = [Emitted_Code 0x2000 32 [0x62, 0x61, 0x72]]"
      by (simp add: range_view_def)
    have l: "code_load_length [0x62, 0x61, 0x72] (snd ?P) = 92"
      by (simp add: code_load_length_def sizeof_RecordCodeLoad_def)
    show "\<exists>s2. NotifyObjectEmitted example_env example_bar example_active = Some s2 \<and>
        length (written example_active s2) = 92 \<and>
        map_option (map view) (decode_records (written example_active s2)) =
          Some [Emitted_Code 0x2000 32 [0x62, 0x61, 0x72]]"
      using C5_debug_info_before_code_load_of_nonzero_size
        [OF example_active_init D p, of example_env "[]"]
      apply (elim exE conjE)
      subgoal for s1 s2
        apply (rule exI [where x = s2])
        apply (simp only: c rep v l written_append [OF D])
        apply auto
        done
      done
  }
  {
    let ?P = "(example_symbol, 0 :: 64 word)"
    have p: "getType (fst ?P) = Some ST_Function" "getName (fst ?P) = Some [0x66, 0x6F, 0x6F]"
      "getAddress (fst ?P) = Some 0x1000"
      "getLineInfoForAddressRange example_zero_length_no_lines 0x1000 (snd ?P) = []"
      by (simp_all add: example_symbol_def example_zero_length_no_lines_def)
    have c: "computeSymbolSizes example_zero_length_no_lines = ?P # []" "snd ?P = 0"
      by (simp_all add: example_zero_length_no_lines_def)
    show "\<exists>s2. NotifyObjectEmitted example_env example_zero_length_no_lines example_active =
          Some s2 \<and>
        written example_active s2 = []"
      using C5_debug_info_before_code_load_of_nonzero_size
        [OF example_active_init D p, of example_env "[]"]
      apply (elim exE conjE)
      subgoal for s1 s2
        apply (rule exI [where x = s2])
        apply (simp only: c written_append [OF D])
        apply (simp add: example_active_init)
        done
      done
  }
qed

text \<open>
  C5, counterexample to "for a range with an empty line table, only a code load record is
  written": for a function of length zero with an empty line table
  \<^verbatim>\<open>NotifyObjectEmitted\<close> leaves the listener as it is and writes nothing.
\<close>

theorem C5_counterexample:
  "getLineInfoForAddressRange example_zero_length_no_lines 0x1000 0 = [] \<and>
   NotifyObjectEmitted example_env example_zero_length_no_lines example_active =
     Some example_active \<and>
   written example_active example_active = []"
  by (simp add: example_zero_length_no_lines_def example_symbol_def NotifyObjectEmitted_def
      symbol_step_def example_active_init NotifyDebug_def)

text \<open>
  C6 (as amended). The marker is mapped before the header is written: no initialisation
  writes the header before it maps the marker, and one that writes the header has made, in
  this order, the clock check, the creation of the two directories, the opening of the dump
  file, the reading of the own executable, the mapping of the marker over the descriptor of
  the dump file, the reading of the header's timestamp and the header write.
\<close>

theorem C6_marker_mapped_before_header:
  "\<not> precedes is_write_Header is_mmap (fst (PerfJITEventListener_ctor env)) \<and>
   (list_ex is_write_Header (fst (PerfJITEventListener_ctor env)) \<longrightarrow>
      (\<exists>dir fd. fst (PerfJITEventListener_ctor env) =
         [Call_clock_gettime, Call_create_directories (base_Path env),
          Call_createUniqueDirectory (model_Path env),
          Call_openFileForWrite (dir @ ''jit-'' @ show_int (sint (env_getpid env)) @ ''.dump''),
          Call_openFileForRead ''/proc/self/exe'', Call_mmap fd,
          Call_clock_gettime, Call_write_Header]) \<and>
      precedes is_mmap is_write_Header (fst (PerfJITEventListener_ctor env)))"
  using ctor_calls_cases [of env]
  by (elim disjE exE conjE) auto

text \<open>C6, witness: the calls of the constructor in the concrete session.\<close>

theorem C6_marker_mapped_before_header_witness:
  "list_ex is_write_Header (fst (PerfJITEventListener_ctor example_env)) \<and>
   fst (PerfJITEventListener_ctor example_env) =
     [Call_clock_gettime, Call_create_directories ''/home/u/.debug/jit/'',
      Call_createUniqueDirectory ''/home/u/.debug/jit/llvm-IR-jit-20240101'',
      Call_openFileForWrite ''/home/u/.debug/jit/llvm-IR-jit-20240101-a1b2c3jit-42.dump'',
      Call_openFileForRead ''/proc/self/exe'', Call_mmap 3,
      Call_clock_gettime, Call_write_Header] \<and>
   precedes is_mmap is_write_Header (fst (PerfJITEventListener_ctor example_env))"
  using C6_marker_mapped_before_header [of example_env]
  by (simp add: example_ctor)

text \<open>
  C6, counterexample to the order the specification states: in the concrete session the marker is mapped
  before the header is written, and no header write comes before the mapping.
\<close>

theorem C6_counterexample:
  "precedes is_mmap is_write_Header (fst (PerfJITEventListener_ctor example_env)) \<and>
   \<not> precedes is_write_Header is_mmap (fst (PerfJITEventListener_ctor example_env))"
  by (simp add: example_ctor)

text \<open>
  C7. If a step of the initialisation fails (the clock fails or reads 0, a directory cannot
  be created, the dump file cannot be opened, the own executable cannot be read or is not
  ELF, the marker cannot be mapped, the stream reports an error after the header), the
  listener is not initialised, and every sequence of code-emission and code-free events
  leaves its state, and so the log, unchanged: it never becomes initialised later, nor
  does its destruction initialise it.
\<close>

theorem C7_failed_initialisation_is_inert:
  assumes "init_step_fails env"
  shows "\<not> SuccessfullyInitialized (snd (PerfJITEventListener_ctor env)) \<and>
         (\<forall>es. run_events env es (snd (PerfJITEventListener_ctor env)) =
                 Some (snd (PerfJITEventListener_ctor env))) \<and>
         \<not> SuccessfullyInitialized
              (PerfJITEventListener_dtor (snd (PerfJITEventListener_ctor env)))"
  using ctor_inert [OF assms] by (simp add: run_events_inert dtor_inert)

text \<open>
  C7, witness: the session directory cannot be created; the listener is not initialised, has
  written nothing, and a code-emission event and a code-free event leave it as it is.
\<close>

theorem C7_failed_initialisation_is_inert_witness:
  "init_step_fails example_env_no_directory \<and>
   \<not> SuccessfullyInitialized (snd (PerfJITEventListener_ctor example_env_no_directory)) \<and>
   dump (snd (PerfJITEventListener_ctor example_env_no_directory)) = [] \<and>
   run_events example_env_no_directory [ObjectEmitted example_foo, FreeingObject example_foo]
     (snd (PerfJITEventListener_ctor example_env_no_directory)) =
     Some (snd (PerfJITEventListener_ctor example_env_no_directory))"
proof -
  have f: "init_step_fails example_env_no_directory"
    by (simp add: init_step_fails_def example_env_no_directory_def)
  have d: "dump (snd (PerfJITEventListener_ctor example_env_no_directory)) = []"
    by (simp add: PerfJITEventListener_ctor_def perf_get_timestamp_eq InitDebuggingDir_eq
        example_env_no_directory_def Let_def dump_def)
  show ?thesis
    using C7_failed_initialisation_is_inert [OF f] by (simp add: f d del: run_events.simps)
qed

text \<open>
  C8. After the fixed fields of a debug info record come, for each entry of the line table
  in the table's order, its address plus \<open>0x40\<close>, its line, its discriminator and its
  file name followed by NUL. The path written is always the entry's own, also when it
  repeats the one before: a reader that knows the two-byte mark for a repeated path gets
  back every entry with its full path (for paths that are C strings other than the byte
  \<open>0xFF\<close> itself).
\<close>

theorem C8_debug_entries_layout:
  assumes "SuccessfullyInitialized s" and "Dumpstream s = Some d" and "Lines \<noteq> []"
  shows "\<exists>s'. NotifyDebug env CodeAddr Lines s = Some s' \<and>
           Dumpstream s' = Some (d @ written s s') \<and>
           field_DI_NrEntry (written s s') = of_nat (length Lines) \<and>
           drop sizeof_RecordDebugInfo (written s s') =
             concat (map (\<lambda>It. le64 (fst It + 0x40) @ le32 (Line (snd It)) @
                                le32 (Discriminator (snd It)) @ FileName (snd It) @ [0]) Lines) \<and>
           (list_all (\<lambda>It. 0 \<notin> set (FileName (snd It)) \<and> FileName (snd It) \<noteq> [0xFF]) Lines \<longrightarrow>
              decode_entries (length Lines) [] (drop sizeof_RecordDebugInfo (written s s')) =
                Some (map (\<lambda>It. (\<lparr>DE_Addr = fst It + 0x40, DE_Lineno = Line (snd It),
                                    DE_Discrim = Discriminator (snd It)\<rparr>, FileName (snd It)))
                        Lines))"
proof -
  let ?b = "DebugInfo_bytes env CodeAddr Lines s"
  let ?s' = "s\<lparr>Dumpstream := Some (d @ ?b), ClockReads := Suc (ClockReads s)\<rparr>"
  have n: "NotifyDebug env CodeAddr Lines s = Some ?s'"
    by (simp add: NotifyDebug_eq [OF assms(1,3)] assms(2))
  have w: "written s ?s' = ?b"
    by (rule written_append [OF assms(2)]) simp
  have e: "entry_bytes = (\<lambda>It. le64 (fst It + 0x40) @ le32 (Line (snd It)) @
                                le32 (Discriminator (snd It)) @ FileName (snd It) @ [0])"
    by (rule ext) (simp add: entry_bytes_def)
  have c: "drop sizeof_RecordDebugInfo ?b =
      concat (map (\<lambda>It. le64 (fst It + 0x40) @ le32 (Line (snd It)) @
                         le32 (Discriminator (snd It)) @ FileName (snd It) @ [0]) Lines)"
    by (simp only: DebugInfo_bytes_more_fields e)
  have x: "list_all (\<lambda>It. 0 \<notin> set (FileName (snd It)) \<and> FileName (snd It) \<noteq> [0xFF]) Lines \<longrightarrow>
      decode_entries (length Lines) [] (drop sizeof_RecordDebugInfo ?b) =
        Some (map (\<lambda>It. (\<lparr>DE_Addr = fst It + 0x40, DE_Lineno = Line (snd It),
                            DE_Discrim = Discriminator (snd It)\<rparr>, FileName (snd It))) Lines)"
    by (simp only: DebugInfo_bytes_more_fields) (simp add: decode_entries_bytes)
  show ?thesis
    apply (rule exI [where x = ?s'])
    apply (simp only: n w)
    apply (intro conjI)
        apply simp
       apply simp
      apply (rule DebugInfo_bytes_more_fields)
     apply (rule c)
    apply (rule x)
    done
qed

text \<open>
  C8, witness: two entries at \<open>0x1000\<close> and \<open>0x1004\<close> for the same file \<^verbatim>\<open>a.c\<close>; the
  path is written in full both times.
\<close>

theorem C8_debug_entries_layout_witness:
  "\<exists>s'. NotifyDebug example_env 0x1000 example_Lines2 example_active = Some s' \<and>
      field_DI_NrEntry (written example_active s') = 2 \<and>
      drop sizeof_RecordDebugInfo (written example_active s') =
        [0x40, 0x10, 0, 0, 0, 0, 0, 0,  10, 0, 0, 0,  0, 0, 0, 0,  0x61, 0x2E, 0x63, 0,
         0x44, 0x10, 0, 0, 0, 0, 0, 0,  11, 0, 0, 0,  3, 0, 0, 0,  0x61, 0x2E, 0x63, 0] \<and>
      decode_entries 2 [] (drop sizeof_RecordDebugInfo (written example_active s')) =
        Some [(\<lparr>DE_Addr = 0x1040, DE_Lineno = 10, DE_Discrim = 0\<rparr>, [0x61, 0x2E, 0x63]),
              (\<lparr>DE_Addr = 0x1044, DE_Lineno = 11, DE_Discrim = 3\<rparr>, [0x61, 0x2E, 0x63])]"
proof -
  have ne: "example_Lines2 \<noteq> []"
    by (simp add: example_Lines2_def)
  from C8_debug_entries_layout [OF example_active_init example_active_Dumpstream ne,
      of example_env "0x1000"]
  obtain s' where 1: "NotifyDebug example_env 0x1000 example_Lines2 example_active = Some s'"
    "field_DI_NrEntry (written example_active s') = of_nat (length example_Lines2)"
    "drop sizeof_RecordDebugInfo (written example_active s') =
       concat (map (\<lambda>It. le64 (fst It + 0x40) @ le32 (Line (snd It)) @
                          le32 (Discriminator (snd It)) @ FileName (snd It) @ [0]) example_Lines2)"
    "list_all (\<lambda>It. 0 \<notin> set (FileName (snd It)) \<and> FileName (snd It) \<noteq> [0xFF]) example_Lines2 \<longrightarrow>
       decode_entries (length example_Lines2) [] (drop sizeof_RecordDebugInfo (written example_active s')) =
         Some (map (\<lambda>It. (\<lparr>DE_Addr = fst It + 0x40, DE_Lineno = Line (snd It),
                             DE_Discrim = Discriminator (snd It)\<rparr>, FileName (snd It)))
                 example_Lines2)"
    by blast
  have 2: "field_DI_NrEntry (written example_active s') = 2"
    using 1(2) by (simp add: example_Lines2_def)
  have 3: "drop sizeof_RecordDebugInfo (written example_active s') =
        [0x40, 0x10, 0, 0, 0, 0, 0, 0,  10, 0, 0, 0,  0, 0, 0, 0,  0x61, 0x2E, 0x63, 0,
         0x44, 0x10, 0, 0, 0, 0, 0, 0,  11, 0, 0, 0,  3, 0, 0, 0,  0x61, 0x2E, 0x63, 0]"
    unfolding 1(3) by (simp add: example_Lines2_def le32_def le64_def)
  have 4: "decode_entries 2 [] (drop sizeof_RecordDebugInfo (written example_active s')) =
        Some [(\<lparr>DE_Addr = 0x1040, DE_Lineno = 10, DE_Discrim = 0\<rparr>, [0x61, 0x2E, 0x63]),
              (\<lparr>DE_Addr = 0x1044, DE_Lineno = 11, DE_Discrim = 3\<rparr>, [0x61, 0x2E, 0x63])]"
  proof -
    have a: "list_all (\<lambda>It. 0 \<notin> set (FileName (snd It)) \<and> FileName (snd It) \<noteq> [0xFF])
        example_Lines2"
      by (simp add: example_Lines2_def)
    have len: "length example_Lines2 = 2"
      by (simp add: example_Lines2_def)
    have m: "map (\<lambda>It. (\<lparr>DE_Addr = fst It + 0x40, DE_Lineno = Line (snd It),
                         DE_Discrim = Discriminator (snd It)\<rparr>, FileName (snd It)))
        example_Lines2 =
        [(\<lparr>DE_Addr = 0x1040, DE_Lineno = 10, DE_Discrim = 0\<rparr>, [0x61, 0x2E, 0x63]),
         (\<lparr>DE_Addr = 0x1044, DE_Lineno = 11, DE_Discrim = 3\<rparr>, [0x61, 0x2E, 0x63])]"
      by (simp add: example_Lines2_def)
    from 1(4) [rule_format, OF a] show ?thesis
      by (simp only: len m)
  qed
  show ?thesis
    using 1(1) 2 3 4 by blast
qed

text \<open>
  C9 (as amended). Round trip, for a session whose ranges the format can represent (symbol
  names and file paths without NUL, no file path that is the single byte \<open>0xFF\<close>, every
  record shorter than \<open>2 ^ 32\<close> bytes): reading the header and then the records of the
  stream the session produced succeeds and gives back, range by range and in order, for a
  non-empty line table the code address and the (address + \<open>0x40\<close>, line, discriminator,
  file) tuples, and for a code size other than zero the code address, the code size and the
  symbol name.
\<close>

theorem C9_round_trip_of_representable_ranges:
  assumes "SuccessfullyInitialized (snd (PerfJITEventListener_ctor env))"
    and "list_all representable (session_ranges es)"
  shows "\<exists>s hdr recs.
           run_events env es (snd (PerfJITEventListener_ctor env)) = Some s \<and>
           decode_stream (dump s) = Some (hdr, recs) \<and>
           map view recs = concat (map range_view (session_ranges es))"
proof -
  let ?s0 = "snd (PerfJITEventListener_ctor env)"
  from ctor_active_stream [OF assms(1)]
  obtain H where H: "Dumpstream ?s0 = Some (bytes_Header H)"
    "Hdr_Magic H = LLVM_PERF_JIT_MAGIC" "Hdr_TotalSize H = 40"
    by blast
  from emit_ranges_decodes [OF assms(1) H(1) assms(2), of env]
  obtain s w recs where 1: "emit_ranges env (session_ranges es) ?s0 = Some s"
    "Dumpstream s = Some (bytes_Header H @ w)"
    "\<And>rest. decode_records (w @ rest) = map_option ((@) recs) (decode_records rest)"
    "map view recs = concat (map range_view (session_ranges es))"
    by blast
  have r: "run_events env es ?s0 = Some s"
    by (simp add: run_events_active [OF assms(1)] 1(1))
  have "decode_records w = Some recs"
    using 1(3) [of "[]"] by simp
  then have d: "decode_stream (dump s) = Some (H, recs)"
    by (simp add: dump_def 1(2) decode_stream_Header [OF H(2,3)])
  show ?thesis
    using r d 1(4) by blast
qed

text \<open>C9, witness: the scenario's function \<^verbatim>\<open>foo\<close> with its one line entry.\<close>

theorem C9_round_trip_of_representable_ranges_witness:
  "SuccessfullyInitialized (snd (PerfJITEventListener_ctor example_env)) \<and>
   list_all representable (session_ranges [ObjectEmitted example_foo]) \<and>
   (\<exists>s hdr recs.
      run_events example_env [ObjectEmitted example_foo]
        (snd (PerfJITEventListener_ctor example_env)) = Some s \<and>
      decode_stream (dump s) = Some (hdr, recs) \<and>
      map view recs =
        [Emitted_Debug 0x1000 [(0x1040, 10, 0, [0x61, 0x2E, 0x63])],
         Emitted_Code 0x1000 64 [0x66, 0x6F, 0x6F]])"
proof -
  have a: "SuccessfullyInitialized (snd (PerfJITEventListener_ctor example_env))"
    by (simp add: example_ctor)
  have b: "list_all representable (session_ranges [ObjectEmitted example_foo])"
    by (simp only: example_foo_ranges)
       (simp add: representable_def example_Lines_def code_load_length_def
        debug_length_def sizeof_RecordCodeLoad_def sizeof_RecordDebugInfo_def sizeof_DebugEntry_def)
  have c: "concat (map range_view (session_ranges [ObjectEmitted example_foo])) =
      [Emitted_Debug 0x1000 [(0x1040, 10, 0, [0x61, 0x2E, 0x63])],
       Emitted_Code 0x1000 64 [0x66, 0x6F, 0x6F]]"
    by (simp only: example_foo_ranges) (simp add: range_view_def example_Lines_def)
  show ?thesis
    using C9_round_trip_of_representable_ranges [OF a b] a b
    by (simp only: c)
qed

text \<open>
  C9, counterexample to the round trip for every event: for a function of \<open>2 ^ 32\<close> bytes
  the total size in the prefix is 58, the reader takes the 58 bytes as the record, finds no
  code bytes after the name where the record announces \<open>2 ^ 32\<close>, and fails.
\<close>

theorem C9_counterexample:
  "\<exists>s. run_events example_env [ObjectEmitted example_huge] example_active = Some s \<and>
       decode_stream (dump s) = None"
proof -
  let ?s = "NotifyCode example_env [0x66] 0x1000 0x100000000 example_active"
  let ?b = "CodeLoad_bytes example_env [0x66] 0x1000 0x100000000 example_active"
  let ?H = "\<lparr>Hdr_Magic = 0x4A695444, Hdr_Version = 1,
         Hdr_TotalSize = 40, Hdr_ElfMach = 62, Hdr_Pad1 = 0, Hdr_Pid = 42,
         Hdr_Timestamp = 101000000005, Hdr_Flags = 0\<rparr>"
  have r: "run_events example_env [ObjectEmitted example_huge] example_active = Some ?s"
    by (simp only: run_events_active [OF example_active_init] example_huge_ranges)
       (simp add: emit_range_def example_active_init)
  have d: "Dumpstream ?s = Some (bytes_Header ?H @ ?b)"
    by (simp add: NotifyCode_eq example_active_Dumpstream)
  have p: "decode_Prefix ?b = \<lparr>Id = 0, TotalSize = 58,
      Timestamp = timestamp_at example_env (ClockReads example_active)\<rparr>"
    using decode_Prefix_CodeLoad [where rest = "[]" and env = example_env and Symbol = "[0x66]"
        and CodeAddr = "0x1000" and CodeSize = "0x100000000" and s = example_active]
    by simp
  have l: "length ?b = 4294967354"
    by (simp add: length_CodeLoad_bytes code_load_length_def sizeof_RecordCodeLoad_def)
  have t: "take 58 ?b = take 56 ?b @ [0x66, 0]"
    by (simp add: CodeLoad_bytes_def)
  have t56: "length (take 56 ?b) = 56"
    by (simp add: l)
  have s: "drop sizeof_RecordCodeLoad (take 56 ?b @ [0x66, 0]) = [0x66, 0]"
    by (simp add: sizeof_RecordCodeLoad_def l)
  have f: "rd64 (drop 40 (take 56 ?b @ [0x66, 0])) = 0x100000000"
    by (simp add: CodeLoad_bytes_def)
  have i: "Id (decode_Prefix (take 56 ?b @ [0x66, 0])) = 0"
    by (simp add: CodeLoad_bytes_def decode_Prefix_def)
  have c: "decode_CodeLoad (take 56 ?b @ [0x66, 0]) = None"
    unfolding decode_CodeLoad_def
    by (simp only: Let_def s f LLVMPerfJitRecordCodeLoad.simps)
       (simp add: split_NUL_def sizeof_RecordCodeLoad_def l)
  have u: "unat (TotalSize (decode_Prefix ?b)) = 58"
    by (simp add: p)
  have ne: "?b \<noteq> []"
    using l by auto
  have "decode_records ?b = None"
    apply (subst decode_records.simps)
    apply (simp only: u t ne if_False l)
    apply (simp add: sizeof_RecordPrefix_def decode_record_def i c)
    done
  then have "decode_stream (dump ?s) = None"
    by (simp add: dump_def d decode_stream_Header LLVM_PERF_JIT_MAGIC_def)
  with r show ?thesis by blast
qed



end

